theory Spec2Isabelle
  imports Complex_Main "HOL-Library.Word" "HOL-Library.Multiset" "HOL-Library.Sublist"
begin

chapter \<open>The model\<close>

section \<open>JavaScript values used by the timing code\<close>

text \<open>
  A JavaScript \<open>number\<close> is a finite value, \<open>Infinity\<close>, \<open>-Infinity\<close> or \<open>NaN\<close>.
  Finite values are modelled as exact reals: the timing data are millisecond and lap
  counters, far below the range where doubles stop being exact on integers. The
  rounding of doubles and the sign of zero are not represented.
\<close>

datatype jsnum = Num real | PosInf | NegInf | NaN

text \<open>Truthiness, as \<open>||\<close> and \<open>if\<close> test it: \<open>0\<close> and \<open>NaN\<close> are falsy.\<close>

fun truthy_num :: "jsnum \<Rightarrow> bool" where
  "truthy_num (Num x) = (x \<noteq> 0)"
| "truthy_num PosInf = True"
| "truthy_num NegInf = True"
| "truthy_num NaN = False"

definition truthy_str :: "string \<Rightarrow> bool" where
  "truthy_str s = (s \<noteq> [])"

fun truthy_ostr :: "string option \<Rightarrow> bool" where
  "truthy_ostr None = False"
| "truthy_ostr (Some s) = truthy_str s"

text \<open>\<open>a || b\<close> at the three types the merge uses it.\<close>

definition or_num :: "jsnum \<Rightarrow> jsnum \<Rightarrow> jsnum" where
  "or_num a b = (if truthy_num a then a else b)"

definition or_str :: "string \<Rightarrow> string \<Rightarrow> string" where
  "or_str a b = (if truthy_str a then a else b)"

definition or_ostr :: "string option \<Rightarrow> string option \<Rightarrow> string option" where
  "or_ostr a b = (if truthy_ostr a then a else b)"

text \<open>\<open>Math.max\<close> and \<open>Math.min\<close> on two arguments: \<open>NaN\<close> is contagious.\<close>

fun Math_max :: "jsnum \<Rightarrow> jsnum \<Rightarrow> jsnum" where
  "Math_max NaN _ = NaN"
| "Math_max _ NaN = NaN"
| "Math_max PosInf _ = PosInf"
| "Math_max _ PosInf = PosInf"
| "Math_max NegInf b = b"
| "Math_max a NegInf = a"
| "Math_max (Num x) (Num y) = Num (max x y)"

fun Math_min :: "jsnum \<Rightarrow> jsnum \<Rightarrow> jsnum" where
  "Math_min NaN _ = NaN"
| "Math_min _ NaN = NaN"
| "Math_min NegInf _ = NegInf"
| "Math_min _ NegInf = NegInf"
| "Math_min PosInf b = b"
| "Math_min a PosInf = a"
| "Math_min (Num x) (Num y) = Num (min x y)"

text \<open>Arithmetic of numbers: \<open>a + b\<close>, \<open>-a\<close>, \<open>a - b\<close> and \<open>a * b\<close>.\<close>

fun js_add :: "jsnum \<Rightarrow> jsnum \<Rightarrow> jsnum" where
  "js_add NaN _ = NaN"
| "js_add _ NaN = NaN"
| "js_add PosInf NegInf = NaN"
| "js_add NegInf PosInf = NaN"
| "js_add PosInf _ = PosInf"
| "js_add _ PosInf = PosInf"
| "js_add NegInf _ = NegInf"
| "js_add _ NegInf = NegInf"
| "js_add (Num x) (Num y) = Num (x + y)"

fun js_neg :: "jsnum \<Rightarrow> jsnum" where
  "js_neg (Num x) = Num (- x)"
| "js_neg PosInf = NegInf"
| "js_neg NegInf = PosInf"
| "js_neg NaN = NaN"

definition js_sub :: "jsnum \<Rightarrow> jsnum \<Rightarrow> jsnum" where
  "js_sub a b = js_add a (js_neg b)"

text \<open>The sign of a number that is not \<open>NaN\<close>: \<open>-1\<close>, \<open>0\<close> or \<open>1\<close>.\<close>

fun js_sign :: "jsnum \<Rightarrow> int option" where
  "js_sign (Num x) = Some (if x < 0 then - 1 else if x = 0 then 0 else 1)"
| "js_sign PosInf = Some 1"
| "js_sign NegInf = Some (- 1)"
| "js_sign NaN = None"

fun js_mul :: "jsnum \<Rightarrow> jsnum \<Rightarrow> jsnum" where
  "js_mul (Num x) (Num y) = Num (x * y)"
| "js_mul a b =
     (case (js_sign a, js_sign b) of
        (Some sa, Some sb) \<Rightarrow>
          (if sa * sb = 0 then NaN else if sa * sb > 0 then PosInf else NegInf)
      | _ \<Rightarrow> NaN)"


section \<open>Unified competitor records\<close>

datatype flag_status = Green | Yellow | Red | Checkered | Unknown

datatype lap_source = SrcRedmist | SrcRacemonitor | SrcMerged

text \<open>
  \<open>UnifiedLapData\<close>. The fields that share a name with a field of the competitor record
  carry the prefix \<open>lap_\<close>. Lap times are finite millisecond values.
\<close>

record UnifiedLapData =
  lap_transponder :: string
  lap_carNumber :: string
  lapNumber :: real
  lapTime :: real
  lap_position :: real
  lap_flagStatus :: flag_status
  lap_totalTime :: real
  lap_source :: lap_source

record Sources =
  src_redmist :: "bool option"
  src_racemonitor :: "bool option"

text \<open>\<open>UnifiedCompetitor\<close>: an optional field (\<open>teamName?:\<close>) is an \<open>option\<close>, \<open>None\<close> for \<open>undefined\<close>.\<close>

record UnifiedCompetitor =
  transponder :: string
  carNumber :: string
  driverName :: string
  teamName :: "string option"
  className :: "string option"
  position :: jsnum
  classPosition :: "jsnum option"
  laps :: jsnum
  lastLapTime :: jsnum
  bestLapTime :: jsnum
  totalTime :: jsnum
  pitCount :: "jsnum option"
  inPit :: "bool option"
  flagStatus :: "string option"
  lapHistory :: "UnifiedLapData list option"
  sources :: Sources


section \<open>The reconciliation merge\<close>

text \<open>
  \<open>mergeCompetitorData(redmist, raceMonitor)\<close>; \<open>None\<close> is \<open>null\<close>. The first argument is
  the record of provider A (RedMist), the second that of provider B (Race-Monitor).
\<close>

fun mergeCompetitorData ::
  "UnifiedCompetitor option \<Rightarrow> UnifiedCompetitor option \<Rightarrow> UnifiedCompetitor option" where
  "mergeCompetitorData None None = None"
| "mergeCompetitorData None (Some raceMonitor) = Some raceMonitor"
| "mergeCompetitorData (Some redmist) None = Some redmist"
| "mergeCompetitorData (Some redmist) (Some raceMonitor) = Some \<lparr>
     transponder = or_str (transponder redmist) (transponder raceMonitor),
     carNumber = or_str (carNumber redmist) (carNumber raceMonitor),
     driverName = or_str (driverName redmist) (driverName raceMonitor),
     teamName = or_ostr (teamName redmist) (teamName raceMonitor),
     className = or_ostr (className redmist) (className raceMonitor),
     position = or_num (position redmist) (position raceMonitor),
     classPosition = classPosition redmist,
     laps = Math_max (laps redmist) (laps raceMonitor),
     lastLapTime = or_num (lastLapTime redmist) (lastLapTime raceMonitor),
     bestLapTime =
       or_num (Math_min (or_num (bestLapTime redmist) PosInf)
                        (or_num (bestLapTime raceMonitor) PosInf)) (Num 0),
     totalTime = or_num (totalTime raceMonitor) (totalTime redmist),
     pitCount = pitCount redmist,
     inPit = inPit redmist,
     flagStatus = flagStatus redmist,
     lapHistory = lapHistory raceMonitor,
     sources = \<lparr> src_redmist = Some True, src_racemonitor = Some True \<rparr> \<rparr>"

text \<open>The merge of two records that are both present.\<close>

definition merge :: "UnifiedCompetitor \<Rightarrow> UnifiedCompetitor \<Rightarrow> UnifiedCompetitor" where
  "merge a b = the (mergeCompetitorData (Some a) (Some b))"


text \<open>
  The specification's rule for a field merged by preferring the value that is present:
  if exactly one input has a value, the result has that value.
\<close>

definition keeps_sole_value :: "('a \<Rightarrow> bool) \<Rightarrow> 'a \<Rightarrow> 'a \<Rightarrow> 'a \<Rightarrow> bool" where
  "keeps_sole_value present x y r =
     ((present x \<and> \<not> present y \<longrightarrow> r = x) \<and> (\<not> present x \<and> present y \<longrightarrow> r = y))"

text \<open>A car at the start of a race: no lap completed, no best lap time yet.\<close>

definition car_at_start :: UnifiedCompetitor where
  "car_at_start =
     \<lparr> transponder = ''1234'', carNumber = ''42'', driverName = ''Unknown'',
       teamName = None, className = None, position = Num 1, classPosition = None,
       laps = Num 0, lastLapTime = Num 0, bestLapTime = Num 0, totalTime = Num 0,
       pitCount = None, inPit = None, flagStatus = Some ''green'', lapHistory = None,
       sources = \<lparr> src_redmist = Some True, src_racemonitor = None \<rparr> \<rparr>"

text \<open>
  Two records of one car: the first carries a lap history and no pit data or class position,
  the second carries pit data and a class position and no lap history.
\<close>

definition car_with_history :: UnifiedCompetitor where
  "car_with_history =
     \<lparr> transponder = ''1234'', carNumber = ''42'', driverName = ''A Driver'',
       teamName = None, className = Some ''GT'', position = Num 2, classPosition = None,
       laps = Num 1, lastLapTime = Num 90000, bestLapTime = Num 90000, totalTime = Num 90000,
       pitCount = None, inPit = None, flagStatus = None,
       lapHistory = Some [\<lparr> lap_transponder = ''1234'', lap_carNumber = ''42'', lapNumber = 1,
         lapTime = 90000, lap_position = 2, lap_flagStatus = Green, lap_totalTime = 90000,
         lap_source = SrcRacemonitor \<rparr>],
       sources = \<lparr> src_redmist = Some True, src_racemonitor = Some True \<rparr> \<rparr>"

definition car_with_pit_data :: UnifiedCompetitor where
  "car_with_pit_data =
     \<lparr> transponder = ''1234'', carNumber = ''42'', driverName = ''A Driver'',
       teamName = Some ''Team One'', className = Some ''GT'', position = Num 2,
       classPosition = Some (Num 3), laps = Num 1, lastLapTime = Num 90000,
       bestLapTime = Num 90000, totalTime = Num 0, pitCount = Some (Num 2),
       inPit = Some True, flagStatus = Some ''green'', lapHistory = None,
       sources = \<lparr> src_redmist = Some True, src_racemonitor = None \<rparr> \<rparr>"


section \<open>The flag-aware pace analyzer\<close>

text \<open>
  \<open>times.reduce((a, b) => a + b, 0) / times.length\<close>: the fold starts at \<open>0\<close>, so on the empty
  array the quotient is \<open>0 / 0\<close>, which is \<open>NaN\<close>.
\<close>

definition js_mean :: "real list \<Rightarrow> jsnum" where
  "js_mean lapTimes =
     (if length lapTimes = 0 then NaN
      else Num (foldl (\<lambda>a b. a + b) 0 lapTimes / real (length lapTimes)))"

text \<open>
  \<open>times.reduce((sum, t) => sum + Math.pow(t - truePace, 2), 0) / times.length\<close>, and its
  square root. With \<open>truePace = NaN\<close> the array is empty and both are \<open>NaN\<close>.
\<close>

definition js_variance :: "real list \<Rightarrow> jsnum \<Rightarrow> jsnum" where
  "js_variance lapTimes pace =
     (case pace of
        Num m \<Rightarrow>
          (if length lapTimes = 0 then NaN
           else Num (foldl (\<lambda>sum t. sum + (t - m)\<^sup>2) 0 lapTimes / real (length lapTimes)))
      | _ \<Rightarrow> NaN)"

fun Math_sqrt :: "jsnum \<Rightarrow> jsnum" where
  "Math_sqrt (Num x) = (if x < 0 then NaN else Num (sqrt x))"
| "Math_sqrt PosInf = PosInf"
| "Math_sqrt NegInf = NaN"
| "Math_sqrt NaN = NaN"

record TruePace =
  truePace :: jsnum
  consistency :: jsnum
  sampleSize :: nat

text \<open>\<open>calculateTruePace(lapHistory, excludeOutliers)\<close>.\<close>

definition calculateTruePace :: "UnifiedLapData list \<Rightarrow> bool \<Rightarrow> TruePace" where
  "calculateTruePace history excludeOutliers =
     (let greenLaps = filter (\<lambda>l. lap_flagStatus l = Green) history in
      if length greenLaps = 0 then \<lparr> truePace = Num 0, consistency = Num 0, sampleSize = 0 \<rparr>
      else
        let times0 = map lapTime greenLaps;
            lapTimes =
              (if excludeOutliers \<and> length times0 > 3 then
                 (let avg = foldl (\<lambda>a b. a + b) 0 times0 / real (length times0)
                  in filter (\<lambda>t. t < avg * 1.5) times0)
               else times0);
            pace = js_mean lapTimes;
            variance = js_variance lapTimes pace
        in \<lparr> truePace = pace, consistency = Math_sqrt variance, sampleSize = length lapTimes \<rparr>)"

text \<open>
  The specification's wording of true pace with outlier exclusion: the mean of the green-flag
  laps whose times do not exceed 1.5 times the mean of all green-flag laps.
\<close>

definition green_times :: "UnifiedLapData list \<Rightarrow> real list" where
  "green_times history = map lapTime (filter (\<lambda>l. lap_flagStatus l = Green) history)"

definition green_mean :: "UnifiedLapData list \<Rightarrow> real" where
  "green_mean history =
     sum_list (green_times history) / real (length (green_times history))"

definition spec_true_pace :: "UnifiedLapData list \<Rightarrow> jsnum" where
  "spec_true_pace history =
     js_mean (filter (\<lambda>t. t \<le> 1.5 * green_mean history) (green_times history))"

text \<open>The lap history of the specification's example.\<close>

definition example_lap :: "flag_status \<Rightarrow> real \<Rightarrow> real \<Rightarrow> UnifiedLapData" where
  "example_lap f n t =
     \<lparr> lap_transponder = ''1234'', lap_carNumber = ''42'', lapNumber = n, lapTime = t,
       lap_position = 1, lap_flagStatus = f, lap_totalTime = 0, lap_source = SrcRacemonitor \<rparr>"

definition example_history :: "UnifiedLapData list" where
  "example_history =
     [example_lap Green 1 90000, example_lap Green 2 91000,
      example_lap Yellow 3 140000, example_lap Green 4 200000]"

text \<open>A history with five green laps, one of them an outlier: the filter applies.\<close>

definition example_history5 :: "UnifiedLapData list" where
  "example_history5 =
     [example_lap Green 1 90000, example_lap Green 2 91000, example_lap Yellow 3 140000,
      example_lap Green 4 200000, example_lap Green 5 90000, example_lap Green 6 91000]"


section \<open>Strings and \<open>parseInt\<close>\<close>

text \<open>
  A string is a list of characters; the code units above 255 are not represented.
  \<open>parseInt(s)\<close> without a radix: leading white space is skipped, a sign is read, a prefix
  \<open>0x\<close> or \<open>0X\<close> selects radix 16, and the longest prefix of digits is the value; with no
  digit the result is \<open>NaN\<close>.
\<close>

definition is_js_space :: "char \<Rightarrow> bool" where
  "is_js_space c = (c \<in> set [CHR 0x09, CHR 0x0A, CHR 0x0B, CHR 0x0C, CHR 0x0D, CHR 0x20, CHR 0xA0])"

definition digit_value :: "char \<Rightarrow> nat option" where
  "digit_value c =
     (let k = (of_char c :: nat) in
      if 48 \<le> k \<and> k \<le> 57 then Some (k - 48)
      else if 97 \<le> k \<and> k \<le> 102 then Some (k - 87)
      else if 65 \<le> k \<and> k \<le> 70 then Some (k - 55)
      else None)"

definition is_digit_in :: "nat \<Rightarrow> char \<Rightarrow> bool" where
  "is_digit_in radix c = (case digit_value c of Some d \<Rightarrow> d < radix | None \<Rightarrow> False)"

definition digits_value :: "nat \<Rightarrow> string \<Rightarrow> nat" where
  "digits_value radix ds = foldl (\<lambda>acc c. acc * radix + the (digit_value c)) 0 ds"

definition parseInt :: "string \<Rightarrow> jsnum" where
  "parseInt s =
     (let s1 = dropWhile is_js_space s;
          negative = (take 1 s1 = ''-'');
          s2 = (if take 1 s1 = ''-'' \<or> take 1 s1 = ''+'' then drop 1 s1 else s1);
          hex = (take 2 s2 = ''0x'' \<or> take 2 s2 = ''0X'');
          radix = (if hex then 16 else 10);
          s3 = (if hex then drop 2 s2 else s2);
          z = takeWhile (is_digit_in radix) s3
      in if z = [] then NaN
         else Num ((if negative then - 1 else 1) * real (digits_value radix z)))"

text \<open>\<open>s.split(c)\<close> for a one-character separator: never the empty array.\<close>

fun split_on :: "char \<Rightarrow> string \<Rightarrow> string list" where
  "split_on c [] = [[]]"
| "split_on c (x # xs) =
     (if x = c then [] # split_on c xs
      else (case split_on c xs of [] \<Rightarrow> [[x]] | p # ps \<Rightarrow> (x # p) # ps))"

text \<open>\<open>a ?? b\<close>, with \<open>None\<close> for both \<open>null\<close> and \<open>undefined\<close>.\<close>

definition nullish :: "'a option \<Rightarrow> 'a option \<Rightarrow> 'a option" where
  "nullish a b = (case a of Some v \<Rightarrow> Some v | None \<Rightarrow> b)"

text \<open>\<open>s || d\<close> for an optional string \<open>s\<close> and a string literal \<open>d\<close>.\<close>

definition or_default :: "string option \<Rightarrow> string \<Rightarrow> string" where
  "or_default s d = (case s of Some v \<Rightarrow> (if truthy_str v then v else d) | None \<Rightarrow> d)"

text \<open>\<open>a !== b\<close> on numbers: \<open>NaN\<close> differs from everything, itself included.\<close>

definition strict_ne :: "jsnum \<Rightarrow> jsnum \<Rightarrow> bool" where
  "strict_ne a b = (a = NaN \<or> b = NaN \<or> a \<noteq> b)"


section \<open>The replay reconstructor\<close>

text \<open>
  \<open>CarPosition\<close>: the fields that \<open>updatePositionsAtLap\<close> reads or writes, with the prefix
  \<open>cp_\<close>; all other fields travel in the record's extension, which the object spread
  \<open>{...lapEntry, ...}\<close> copies unchanged.
\<close>

record CarPosition =
  cp_n :: "string option"
  cp_c :: "string option"
  cp_l :: "jsnum option"
  cp_ln :: "string option"
  cp_llo :: "jsnum option"
  cp_ovp :: "jsnum option"
  cp_p :: "jsnum option"
  cp_llp :: "jsnum option"
  cp_ltm :: "string option"

record 'a CarLapData =
  cld_carNumber :: string
  cld_laps :: "'a CarPosition_scheme list"
  cld_teamName :: "string option"
  cld_className :: "string option"

text \<open>
  \<open>parseLapTimeToMs\<close>. In \<open>const [secs, ms] = secPart.split('.')\<close> the second component is
  \<open>undefined\<close> when there is no dot.
\<close>

definition secs_and_ms :: "string \<Rightarrow> jsnum \<times> jsnum" where
  "secs_and_ms secPart =
     (let ps = split_on (CHR ''.'') secPart;
          secs = hd ps;
          ms = (if 2 \<le> length ps then Some (ps ! 1) else None)
      in (parseInt secs, parseInt (or_default (map_option (take 3) ms) ''0'')))"

definition parseLapTimeToMs :: "string option \<Rightarrow> jsnum" where
  "parseLapTimeToMs timeStr =
     (case timeStr of
        None \<Rightarrow> Num 0
      | Some s \<Rightarrow>
          if \<not> truthy_str s then Num 0
          else (case split_on (CHR '':'') s of
                  [mins, secPart] \<Rightarrow>
                    (case secs_and_ms secPart of (secs, ms) \<Rightarrow>
                       js_add (js_add (js_mul (parseInt mins) (Num 60000))
                                      (js_mul secs (Num 1000))) ms)
                | [hours, mins, secPart] \<Rightarrow>
                    (case secs_and_ms secPart of (secs, ms) \<Rightarrow>
                       js_add (js_add (js_add (js_mul (parseInt hours) (Num 3600000))
                                              (js_mul (parseInt mins) (Num 60000)))
                                      (js_mul secs (Num 1000))) ms)
                | _ \<Rightarrow> Num 0))"

text \<open>
  The lap number a record carries: \<open>l.l ?? parseInt(l.ln || '0')\<close>. \<open>parseInt\<close> returns a
  number, never \<open>null\<close> or \<open>undefined\<close>, so a further \<open>?? x\<close> behind it (\<open>?? 0\<close> in the
  comparator, \<open>?? carData.laps.length\<close> in the carry-forward) never applies.
\<close>

definition lap_number_of :: "'a CarPosition_scheme \<Rightarrow> jsnum" where
  "lap_number_of r = (case cp_l r of Some v \<Rightarrow> v | None \<Rightarrow> parseInt (or_default (cp_ln r) ''0''))"

text \<open>
  The record of a car for a lap: first \<open>carData.laps[lap - 1]\<close> when the array is at least
  \<open>lap\<close> long (\<open>undefined\<close> for an index below 0), then the first record whose lap number
  equals \<open>lap\<close>. The lap number is an integer.
\<close>

definition find_lap_entry :: "int \<Rightarrow> 'a CarPosition_scheme list \<Rightarrow> 'a CarPosition_scheme option" where
  "find_lap_entry lap lapList =
     (let byIndex =
            (if int (length lapList) \<ge> lap \<and> 1 \<le> lap then Some (lapList ! nat (lap - 1))
             else None)
      in case byIndex of
           Some e \<Rightarrow> Some e
         | None \<Rightarrow> List.find (\<lambda>l. lap_number_of l = Num (real_of_int lap)) lapList)"

text \<open>
  The two entries \<open>updatePositionsAtLap\<close> pushes: for a record found for the lap,
  \<open>{...lapEntry, n, c, ovp: positionAtLap, p: positionAtLap}\<close>; for a car that is laps
  down, \<open>{...lastLap, n, c, l: lastLapNum}\<close>.
\<close>

definition found_entry :: "'a CarLapData \<Rightarrow> 'a CarPosition_scheme \<Rightarrow> 'a CarPosition_scheme" where
  "found_entry carData lapEntry =
     (let positionAtLap =
            nullish (cp_llo lapEntry)
              (nullish (cp_ovp lapEntry) (nullish (cp_p lapEntry) (cp_llp lapEntry)))
      in lapEntry \<lparr> cp_n := Some (cld_carNumber carData),
                      cp_c := cld_className carData,
                      cp_ovp := positionAtLap,
                      cp_p := positionAtLap \<rparr>)"

definition carried_entry :: "'a CarLapData \<Rightarrow> 'a CarPosition_scheme \<Rightarrow> 'a CarPosition_scheme" where
  "carried_entry carData lastLap =
     (let lastLapNum = lap_number_of lastLap
      in lastLap \<lparr> cp_n := Some (cld_carNumber carData),
                     cp_c := cld_className carData,
                     cp_l := Some lastLapNum \<rparr>)"

text \<open>The entry pushed for one car, or \<open>None\<close> when the car is left out.\<close>

definition candidate :: "int \<Rightarrow> 'a CarLapData \<Rightarrow> 'a CarPosition_scheme option" where
  "candidate lap carData =
     (case find_lap_entry lap (cld_laps carData) of
        Some lapEntry \<Rightarrow> Some (found_entry carData lapEntry)
      | None \<Rightarrow>
          if length (cld_laps carData) > 0 \<and> lap > int (length (cld_laps carData)) then
            Some (carried_entry carData (last (cld_laps carData)))
          else None)"

text \<open>The comparator of the sort.\<close>

definition recorded_position :: "'a CarPosition_scheme \<Rightarrow> jsnum" where
  "recorded_position a =
     (case nullish (cp_ovp a) (nullish (cp_p a) (cp_llo a)) of Some v \<Rightarrow> v | None \<Rightarrow> Num 999)"

definition compare_cars :: "'a CarPosition_scheme \<Rightarrow> 'a CarPosition_scheme \<Rightarrow> jsnum" where
  "compare_cars a b =
     (let lapsA = lap_number_of a; lapsB = lap_number_of b in
      if strict_ne lapsA lapsB then js_sub lapsB lapsA
      else
        let posA = recorded_position a; posB = recorded_position b in
        if strict_ne posA posB \<and> strict_ne posA (Num 999) \<and> strict_ne posB (Num 999)
        then js_sub posA posB
        else js_sub (parseLapTimeToMs (cp_ltm a)) (parseLapTimeToMs (cp_ltm b)))"

text \<open>
  \<open>Array.prototype.sort\<close> is a function of the JavaScript engine, not of the repository: it
  is the parameter \<open>sorter\<close> of \<open>updatePositionsAtLap\<close>. ECMAScript fixes the following of it.
  The result is a permutation of the array. If the comparator is a consistent comparison
  function for the elements of the array, the result is sorted by it and the sort is
  stable, which determines the result: it is the stable sorted order, computed below by
  insertion. Otherwise the order is left to the implementation.

  A comparator \<open>cmp\<close> puts \<open>b\<close> before \<open>a\<close> when \<open>cmp a b > 0\<close>. It is consistent on the elements
  when its results are numbers other than \<open>NaN\<close> and, with \<open>a < b\<close>, \<open>a = b\<close>, \<open>a > b\<close> for a
  negative, zero and positive result: \<open>a = a\<close>; \<open>a = b\<close> implies \<open>b = a\<close>; and \<open>=\<close>, \<open><\<close> and \<open>>\<close>
  are transitive.
\<close>

fun js_positive :: "jsnum \<Rightarrow> bool" where
  "js_positive (Num x) = (0 < x)"
| "js_positive PosInf = True"
| "js_positive NegInf = False"
| "js_positive NaN = False"

fun insert_by :: "('a \<Rightarrow> 'a \<Rightarrow> jsnum) \<Rightarrow> 'a \<Rightarrow> 'a list \<Rightarrow> 'a list" where
  "insert_by cmp x [] = [x]"
| "insert_by cmp x (y # ys) =
     (if js_positive (cmp x y) then y # insert_by cmp x ys else x # y # ys)"

definition stable_sort_by :: "('a \<Rightarrow> 'a \<Rightarrow> jsnum) \<Rightarrow> 'a list \<Rightarrow> 'a list" where
  "stable_sort_by cmp xs = foldr (insert_by cmp) xs []"

definition consistent_comparator :: "('a \<Rightarrow> 'a \<Rightarrow> jsnum) \<Rightarrow> 'a list \<Rightarrow> bool" where
  "consistent_comparator cmp xs =
     (\<forall>a \<in> set xs. \<forall>b \<in> set xs. \<forall>c \<in> set xs.
        js_sign (cmp a b) \<noteq> None \<and>
        js_sign (cmp a a) = Some 0 \<and>
        (js_sign (cmp a b) = Some 0 \<longrightarrow> js_sign (cmp b a) = Some 0) \<and>
        (js_sign (cmp a b) = Some 0 \<and> js_sign (cmp b c) = Some 0 \<longrightarrow> js_sign (cmp a c) = Some 0) \<and>
        (js_sign (cmp a b) = Some (- 1) \<and> js_sign (cmp b c) = Some (- 1)
           \<longrightarrow> js_sign (cmp a c) = Some (- 1)) \<and>
        (js_sign (cmp a b) = Some 1 \<and> js_sign (cmp b c) = Some 1 \<longrightarrow> js_sign (cmp a c) = Some 1))"

definition sort_contract :: "(('a \<Rightarrow> 'a \<Rightarrow> jsnum) \<Rightarrow> 'a list \<Rightarrow> 'a list) \<Rightarrow> bool" where
  "sort_contract sorter =
     (\<forall>cmp xs. mset (sorter cmp xs) = mset xs \<and>
        (consistent_comparator cmp xs \<longrightarrow> sorter cmp xs = stable_sort_by cmp xs))"

text \<open>\<open>positionsAtLap.forEach((car, index) => { car.p = index + 1; car.ovp = index + 1; })\<close>.\<close>

definition assign_positions :: "'a CarPosition_scheme list \<Rightarrow> 'a CarPosition_scheme list" where
  "assign_positions cars =
     map (\<lambda>(index, car). car \<lparr> cp_p := Some (Num (real (index + 1))),
                                  cp_ovp := Some (Num (real (index + 1))) \<rparr>)
         (enumerate 0 cars)"

text \<open>\<open>updatePositionsAtLap(lap, lapData)\<close>: the positions it stores in the replay state.\<close>

definition candidates :: "int \<Rightarrow> 'a CarLapData list \<Rightarrow> 'a CarPosition_scheme list" where
  "candidates lap lapData = List.map_filter (candidate lap) lapData"

definition updatePositionsAtLap ::
  "(('a CarPosition_scheme \<Rightarrow> 'a CarPosition_scheme \<Rightarrow> jsnum)
      \<Rightarrow> 'a CarPosition_scheme list \<Rightarrow> 'a CarPosition_scheme list)
     \<Rightarrow> int \<Rightarrow> 'a CarLapData list \<Rightarrow> 'a CarPosition_scheme list" where
  "updatePositionsAtLap sorter lap lapData =
     assign_positions (sorter compare_cars (candidates lap lapData))"

text \<open>The specification's session: car A has five lap records, car B three, car C none.\<close>

definition lap_record :: "real \<Rightarrow> real \<Rightarrow> string \<Rightarrow> CarPosition" where
  "lap_record lapNo pos ltm =
     \<lparr> cp_n = None, cp_c = None, cp_l = Some (Num lapNo), cp_ln = None, cp_llo = None,
       cp_ovp = Some (Num pos), cp_p = None, cp_llp = None, cp_ltm = Some ltm \<rparr>"

definition car_A :: "unit CarLapData" where
  "car_A = \<lparr> cld_carNumber = ''A'',
     cld_laps = [lap_record 1 1 ''1:31.000'', lap_record 2 1 ''1:30.500'', lap_record 3 1 ''1:30.200'',
                 lap_record 4 1 ''1:30.100'', lap_record 5 1 ''1:30.300''],
     cld_teamName = None, cld_className = Some ''GT'' \<rparr>"

definition car_B :: "unit CarLapData" where
  "car_B = \<lparr> cld_carNumber = ''B'',
     cld_laps = [lap_record 1 2 ''1:35.000'', lap_record 2 2 ''1:34.500'', lap_record 3 2 ''1:34.200''],
     cld_teamName = None, cld_className = Some ''GT'' \<rparr>"

definition car_C :: "unit CarLapData" where
  "car_C = \<lparr> cld_carNumber = ''C'', cld_laps = [], cld_teamName = None, cld_className = None \<rparr>"

text \<open>A car with a sparse history: three records, for laps 2, 4 and 5.\<close>

definition car_sparse :: "unit CarLapData" where
  "car_sparse = \<lparr> cld_carNumber = ''S'',
     cld_laps = [lap_record 2 3 ''1:33.000'', lap_record 4 3 ''1:32.000'', lap_record 5 3 ''1:31.000''],
     cld_teamName = None, cld_className = Some ''GT'' \<rparr>"


text \<open>A record carries its lap number when it has the field \<open>l\<close> or a non-empty \<open>ln\<close>.\<close>

definition carries_lap_number :: "'a CarPosition_scheme \<Rightarrow> bool" where
  "carries_lap_number r = (cp_l r \<noteq> None \<or> truthy_ostr (cp_ln r))"









text \<open>An entry without its display position, the fields \<open>p\<close> and \<open>ovp\<close>.\<close>

definition erase_display :: "'a CarPosition_scheme \<Rightarrow> 'a CarPosition_scheme" where
  "erase_display e = e \<lparr> cp_p := None, cp_ovp := None \<rparr>"















section \<open>The token manager\<close>

text \<open>
  \<open>TokenManager\<close>. Instants are milliseconds since the epoch, as \<open>Date.now()\<close> returns them.
  \<open>getToken\<close> is asynchronous: a call either returns the cached token at once or awaits the
  refresh promise, which settles later. The model has one function for the call and one for
  the settling of the refresh, so other calls can fall between the two.
\<close>

record AuthConfig =
  clientId :: string
  clientSecret :: string

datatype auth_error =
  NotConfigured
  | AuthenticationFailed nat string
  | ExchangeRejected

text \<open>
  What the identity provider answers to the credential exchange: \<open>fetch\<close> rejects (or the
  body is not JSON), the response is not \<open>ok\<close> (status and text), or it carries
  \<open>access_token\<close> and \<open>expires_in\<close> (seconds).
\<close>

datatype exchange_response =
  NetworkFailure
  | HttpFailure nat string
  | TokenResponse string int

text \<open>
  The promise \<open>refreshToken()\<close> returns: waiting for the response, or already rejected
  because no configuration was set (the check runs before the first \<open>await\<close>).
\<close>

datatype pending_refresh = AwaitingResponse | AlreadyRejected

datatype effect =
  ExchangeRequest string string
  | NotifyListeners "string option"

record TokenManager =
  accessToken :: "string option"
  tokenExpiry :: "int option"
  refreshPromise :: "pending_refresh option"
  config :: "AuthConfig option"

definition TOKEN_REFRESH_MARGIN :: int where
  "TOKEN_REFRESH_MARGIN = 30000"

definition configure :: "AuthConfig \<Rightarrow> TokenManager \<Rightarrow> TokenManager" where
  "configure cfg tm = tm \<lparr> config := Some cfg, accessToken := None, tokenExpiry := None \<rparr>"

definition clearToken :: "TokenManager \<Rightarrow> TokenManager \<times> effect list" where
  "clearToken tm = (tm \<lparr> accessToken := None, tokenExpiry := None \<rparr>, [NotifyListeners None])"

text \<open>
  \<open>this.accessToken && this.tokenExpiry && Date.now() < this.tokenExpiry - TOKEN_REFRESH_MARGIN\<close>:
  the token if the test succeeds.
\<close>

definition valid_cached_token :: "int \<Rightarrow> TokenManager \<Rightarrow> string option" where
  "valid_cached_token now tm =
     (case accessToken tm of
        None \<Rightarrow> None
      | Some token \<Rightarrow>
          if \<not> truthy_str token then None
          else (case tokenExpiry tm of
                  None \<Rightarrow> None
                | Some expiry \<Rightarrow>
                    if expiry \<noteq> 0 \<and> now < expiry - TOKEN_REFRESH_MARGIN then Some token
                    else None))"

text \<open>
  The synchronous part of \<open>getToken()\<close> at the instant \<open>now\<close>: it returns the cached token,
  or the promise of the refresh in flight, or starts \<open>refreshToken()\<close>, which sends the
  exchange request when a configuration is set.
\<close>

datatype call_outcome =
  ReturnsCached string
  | AwaitsInFlight pending_refresh
  | AwaitsNewRefresh pending_refresh

definition getToken_call :: "int \<Rightarrow> TokenManager \<Rightarrow> call_outcome \<times> TokenManager \<times> effect list" where
  "getToken_call now tm =
     (case valid_cached_token now tm of
        Some token \<Rightarrow> (ReturnsCached token, tm, [])
      | None \<Rightarrow>
          (case refreshPromise tm of
             Some p \<Rightarrow> (AwaitsInFlight p, tm, [])
           | None \<Rightarrow>
               (case config tm of
                  None \<Rightarrow>
                    (AwaitsNewRefresh AlreadyRejected, tm \<lparr> refreshPromise := Some AlreadyRejected \<rparr>, [])
                | Some cfg \<Rightarrow>
                    (AwaitsNewRefresh AwaitingResponse, tm \<lparr> refreshPromise := Some AwaitingResponse \<rparr>,
                     [ExchangeRequest (clientId cfg) (clientSecret cfg)]))))"

text \<open>
  The refresh settles at the instant \<open>now\<close>: the rest of \<open>refreshToken()\<close> after the response,
  then the \<open>finally\<close> of the \<open>getToken()\<close> call that started it. The result goes to every
  caller awaiting the promise.
\<close>

definition refresh_settles ::
  "int \<Rightarrow> exchange_response \<Rightarrow> pending_refresh \<Rightarrow> TokenManager
     \<Rightarrow> (auth_error + string) \<times> TokenManager \<times> effect list" where
  "refresh_settles now response p tm =
     (case p of
        AlreadyRejected \<Rightarrow> (Inl NotConfigured, tm \<lparr> refreshPromise := None \<rparr>, [])
      | AwaitingResponse \<Rightarrow>
          (case response of
             NetworkFailure \<Rightarrow> (Inl ExchangeRejected, tm \<lparr> refreshPromise := None \<rparr>, [])
           | HttpFailure status errorText \<Rightarrow>
               (Inl (AuthenticationFailed status errorText), tm \<lparr> refreshPromise := None \<rparr>, [])
           | TokenResponse access_token expires_in \<Rightarrow>
               (Inr access_token,
                tm \<lparr> accessToken := Some access_token,
                     tokenExpiry := Some (now + expires_in * 1000),
                     refreshPromise := None \<rparr>,
                [NotifyListeners (Some access_token)])))"

text \<open>
  A whole \<open>getToken()\<close>: the call at \<open>now\<close> and, unless the cached token was returned, the
  settling of the awaited refresh at \<open>later\<close> with the provider's response.
\<close>

definition getToken ::
  "int \<Rightarrow> int \<Rightarrow> exchange_response \<Rightarrow> TokenManager
     \<Rightarrow> (auth_error + string) \<times> TokenManager \<times> effect list" where
  "getToken now later response tm =
     (case getToken_call now tm of
        (ReturnsCached token, tm', fx) \<Rightarrow> (Inr token, tm', fx)
      | (AwaitsInFlight p, tm', fx) \<Rightarrow>
          (case refresh_settles later response p tm' of (r, tm'', fx') \<Rightarrow> (r, tm'', fx @ fx'))
      | (AwaitsNewRefresh p, tm', fx) \<Rightarrow>
          (case refresh_settles later response p tm' of (r, tm'', fx') \<Rightarrow> (r, tm'', fx @ fx')))"

text \<open>The exchange fails: the response is not a token response.\<close>

fun exchange_fails :: "exchange_response \<Rightarrow> bool" where
  "exchange_fails (TokenResponse _ _) = False"
| "exchange_fails _ = True"

fun is_failure :: "auth_error + string \<Rightarrow> bool" where
  "is_failure (Inl _) = True"
| "is_failure (Inr _) = False"

fun is_notification :: "effect \<Rightarrow> bool" where
  "is_notification (NotifyListeners _) = True"
| "is_notification (ExchangeRequest _ _) = False"

fun is_exchange :: "effect \<Rightarrow> bool" where
  "is_exchange (ExchangeRequest _ _) = True"
| "is_exchange (NotifyListeners _) = False"

text \<open>A configured manager with no token, and one whose token expires at 100000 ms.\<close>

definition fresh_manager :: TokenManager where
  "fresh_manager =
     \<lparr> accessToken = None, tokenExpiry = None, refreshPromise = None,
       config = Some \<lparr> clientId = ''client'', clientSecret = ''secret'' \<rparr> \<rparr>"

definition manager_with_token :: TokenManager where
  "manager_with_token = fresh_manager \<lparr> accessToken := Some ''old'', tokenExpiry := Some 100000 \<rparr>"


text \<open>
  The specification's condition for the cached path: a cached token exists (the empty
  string is no token) whose expiry instant lies more than the safety margin after now.
\<close>

definition cached_beyond_margin :: "int \<Rightarrow> TokenManager \<Rightarrow> string \<Rightarrow> bool" where
  "cached_beyond_margin now tm token =
     (accessToken tm = Some token \<and> token \<noteq> [] \<and>
      (case tokenExpiry tm of Some expiry \<Rightarrow> now + 30000 < expiry | None \<Rightarrow> False))"



section \<open>The live connection manager: subscriptions\<close>

text \<open>
  \<open>RedMistSignalRClient\<close>. \<open>connection\<close> tells whether the hub connection object is set.
  A remote procedure is invoked through \<open>connection.invoke\<close>; whether an invocation
  resolves or rejects is decided by the hub, a parameter \<open>hub\<close> of every operation. Each
  operation returns its result (\<open>Inl\<close> for a thrown error), the new state and the
  invocations it made, in order.
\<close>

datatype ConnectionState = Disconnected | Connecting | Connected | Reconnecting










































section \<open>The live connection manager: message envelopes\<close>

text \<open>
  A message is a JavaScript string of arbitrary text, so here a string is a list of 16-bit
  code units. \<open>js_of\<close> embeds a literal.
\<close>

type_synonym code_unit = "16 word"
type_synonym jsstring = "code_unit list"
type_synonym byte = "8 word"

definition js_of :: "string \<Rightarrow> jsstring" where
  "js_of s = map (\<lambda>c. of_nat (of_char c)) s"

definition startsWith :: "jsstring \<Rightarrow> jsstring \<Rightarrow> bool" where
  "startsWith s p = (take (length p) s = p)"

subsection \<open>Base64\<close>

text \<open>
  The base64 alphabet (RFC 4648): the value of a code unit, and the code unit of a value
  below 64. \<open>=\<close> is code unit 61.
\<close>

definition b64_value :: "code_unit \<Rightarrow> nat option" where
  "b64_value c =
     (let k = unat c in
      if 65 \<le> k \<and> k \<le> 90 then Some (k - 65)
      else if 97 \<le> k \<and> k \<le> 122 then Some (k - 71)
      else if 48 \<le> k \<and> k \<le> 57 then Some (k + 4)
      else if k = 43 then Some 62
      else if k = 47 then Some 63
      else None)"

definition b64_char :: "nat \<Rightarrow> code_unit" where
  "b64_char n =
     (if n < 26 then of_nat (n + 65)
      else if n < 52 then of_nat (n + 71)
      else if n < 62 then of_nat (n - 4)
      else if n = 62 then 43
      else 47)"

definition pad_char :: code_unit where
  "pad_char = 61"

text \<open>Three bytes are four values of six bits; one or two last bytes are two or three values.\<close>

fun bytes_to_sextets :: "nat list \<Rightarrow> nat list" where
  "bytes_to_sextets (x # y # z # rest) =
     [x div 4, (x mod 4) * 16 + y div 16, (y mod 16) * 4 + z div 64, z mod 64]
       @ bytes_to_sextets rest"
| "bytes_to_sextets [x, y] = [x div 4, (x mod 4) * 16 + y div 16, (y mod 16) * 4]"
| "bytes_to_sextets [x] = [x div 4, (x mod 4) * 16]"
| "bytes_to_sextets [] = []"

fun sextets_to_bytes :: "nat list \<Rightarrow> nat list" where
  "sextets_to_bytes (a # b # c # d # rest) =
     [a * 4 + b div 16, (b mod 16) * 16 + c div 4, (c mod 4) * 64 + d] @ sextets_to_bytes rest"
| "sextets_to_bytes [a, b, c] = [a * 4 + b div 16, (b mod 16) * 16 + c div 4]"
| "sextets_to_bytes [a, b] = [a * 4 + b div 16]"
| "sextets_to_bytes _ = []"

text \<open>
  Modelled from the spec: the sender's side of the envelope codec, which is not part of the
  repository. The standard base64 encoding of a byte sequence (RFC 4648), with padding.
\<close>

definition base64_encode :: "byte list \<Rightarrow> jsstring" where
  "base64_encode bs =
     map b64_char (bytes_to_sextets (map unat bs))
       @ replicate ((3 - length bs mod 3) mod 3) pad_char"

text \<open>
  \<open>atob\<close>, the forgiving base64 decoding of the HTML standard: ASCII white space is removed;
  if the length is then a multiple of 4, one or two final \<open>=\<close> are removed; a length of 1
  modulo 4, or a code unit outside the alphabet, throws (\<open>None\<close>); left-over bits are
  dropped. The result is a binary string, one code unit per byte.
\<close>

definition is_ascii_whitespace :: "code_unit \<Rightarrow> bool" where
  "is_ascii_whitespace c = (c = 9 \<or> c = 10 \<or> c = 12 \<or> c = 13 \<or> c = 32)"

definition strip_padding :: "jsstring \<Rightarrow> jsstring" where
  "strip_padding d =
     (if d \<noteq> [] \<and> last d = pad_char then
        (let d' = butlast d in if d' \<noteq> [] \<and> last d' = pad_char then butlast d' else d')
      else d)"

definition atob :: "jsstring \<Rightarrow> jsstring option" where
  "atob data =
     (let d1 = filter (\<lambda>c. \<not> is_ascii_whitespace c) data;
          d2 = (if length d1 mod 4 = 0 then strip_padding d1 else d1)
      in if length d2 mod 4 = 1 then None
         else (case those (map b64_value d2) of
                 None \<Rightarrow> None
               | Some sextets \<Rightarrow> Some (map of_nat (sextets_to_bytes sextets))))"

subsection \<open>\<open>decompressMessage\<close>\<close>

text \<open>
  \<open>JSON.parse\<close> and \<open>pako.inflate\<close> are library functions. Of \<open>JSON.parse\<close> the model fixes
  what the JSON grammar says about the first character of a text: after white space, a
  value starts with a brace, a bracket, a double quote (code unit 34), a minus sign, a
  digit, or one of \<open>t f n\<close>; any other text is a syntax error. The rest of the parser is the parameter \<open>parse\<close>. \<open>pako.inflate(bytes, {to:
  'string'})\<close> is the parameter \<open>inflate\<close>, \<open>None\<close> when it throws.
\<close>

definition is_json_whitespace :: "code_unit \<Rightarrow> bool" where
  "is_json_whitespace c = (c = 9 \<or> c = 10 \<or> c = 13 \<or> c = 32)"

definition starts_json_value :: "jsstring \<Rightarrow> bool" where
  "starts_json_value text =
     (case dropWhile is_json_whitespace text of
        [] \<Rightarrow> False
      | c # _ \<Rightarrow> c = 34 \<or> c \<in> set (js_of ''{[-0123456789tfn''))"

definition JSON_parse :: "(jsstring \<Rightarrow> 'v option) \<Rightarrow> jsstring \<Rightarrow> 'v option" where
  "JSON_parse parse text = (if starts_json_value text then parse text else None)"

datatype decode_error = InvalidCharacterError | InflateError | SyntaxError

datatype codec_step = Base64Decode | Inflate | JsonParse

text \<open>
  \<open>decompressMessage(message)\<close>: the value or the error thrown, and the library calls made,
  in order. \<open>bytes[i] = binaryString.charCodeAt(i)\<close> stores a code unit in a \<open>Uint8Array\<close>,
  which keeps its low eight bits.
\<close>

definition decompressMessage ::
  "(byte list \<Rightarrow> jsstring option) \<Rightarrow> (jsstring \<Rightarrow> 'v option) \<Rightarrow> jsstring
     \<Rightarrow> (decode_error + 'v) \<times> codec_step list" where
  "decompressMessage inflate parse message =
     (if startsWith message (js_of ''H4sI'') then
        (case atob message of
           None \<Rightarrow> (Inl InvalidCharacterError, [Base64Decode])
         | Some binaryString \<Rightarrow>
             (let bytes = map ucast binaryString in
              case inflate bytes of
                None \<Rightarrow> (Inl InflateError, [Base64Decode, Inflate])
              | Some decompressed \<Rightarrow>
                  (case JSON_parse parse decompressed of
                     None \<Rightarrow> (Inl SyntaxError, [Base64Decode, Inflate, JsonParse])
                   | Some v \<Rightarrow> (Inr v, [Base64Decode, Inflate, JsonParse]))))
      else
        (case JSON_parse parse message of
           None \<Rightarrow> (Inl SyntaxError, [JsonParse])
         | Some v \<Rightarrow> (Inr v, [JsonParse])))"

text \<open>
  The first three bytes of a gzip stream (RFC 1952): the two identification bytes and the
  compression method 8, deflate.
\<close>

definition gzip_header :: "byte list" where
  "gzip_header = [0x1f, 0x8b, 0x08]"

text \<open>
  Stand-ins for the libraries, for concrete runs: a compressor that puts the gzip header
  before the stored bytes, its inverse, a UTF-8 encoding of ASCII text, and the JSON
  literals \<open>true\<close> and \<open>false\<close>.
\<close>

definition stored_gzip :: "byte list \<Rightarrow> byte list" where
  "stored_gzip bs = gzip_header @ bs"

definition stored_inflate :: "byte list \<Rightarrow> jsstring option" where
  "stored_inflate bs = (if take 3 bs = gzip_header then Some (map ucast (drop 3 bs)) else None)"

definition ascii_utf8 :: "jsstring \<Rightarrow> byte list" where
  "ascii_utf8 text = map ucast text"

definition stringify_bool :: "bool \<Rightarrow> jsstring" where
  "stringify_bool b = (if b then js_of ''true'' else js_of ''false'')"

definition parse_bool :: "jsstring \<Rightarrow> bool option" where
  "parse_bool text =
     (if text = js_of ''true'' then Some True
      else if text = js_of ''false'' then Some False
      else None)"

text \<open>
  The zlib stream (RFC 1950) of the JSON text \<open>{}\<close>, as any deflate library produces it at
  the default level: header \<open>78 9c\<close>, a fixed-Huffman block, the Adler-32 checksum.
\<close>

definition zlib_empty_object :: "byte list" where
  "zlib_empty_object = [0x78, 0x9c, 0xab, 0xae, 0x05, 0x00, 0x01, 0x75, 0x00, 0xf9]"


chapter \<open>Verified properties\<close>

section \<open>Properties of the merge\<close>

lemma best_or_zero_is_dead:
  "or_num (Math_min (or_num x PosInf) (or_num y PosInf)) (Num 0)
     = Math_min (or_num x PosInf) (or_num y PosInf)"
  by (cases x; cases y) (auto simp: or_num_def min_def)

lemma merge_bestLapTime:
  "bestLapTime (merge a b)
     = Math_min (or_num (bestLapTime a) PosInf) (or_num (bestLapTime b) PosInf)"
  by (simp add: merge_def best_or_zero_is_dead)

text \<open>
  On finite best lap times the merge is the minimum ignoring zeros whenever one of the two
  is not zero.
\<close>

lemma merge_bestLapTime_nonzero:
  "bestLapTime a = Num x \<Longrightarrow> bestLapTime b = Num y \<Longrightarrow>
   bestLapTime (merge a b) =
     (if x \<noteq> 0 \<and> y \<noteq> 0 then Num (min x y)
      else if x \<noteq> 0 then Num x
      else if y \<noteq> 0 then Num y
      else PosInf)"
  by (simp add: merge_bestLapTime or_num_def)

text \<open>
  C5. \<open>Math.min(a || Infinity, b || Infinity) || 0\<close>: when both best lap times are \<open>0\<close> the
  minimum is \<open>Infinity\<close>, which is truthy, so the final \<open>|| 0\<close> does not apply and the merged
  best lap time is \<open>Infinity\<close>, not \<open>0\<close>.
\<close>

theorem merge_bestLapTime_both_zero:
  "bestLapTime car_at_start = Num 0 \<and>
   bestLapTime (car_at_start \<lparr> sources := \<lparr> src_redmist = None, src_racemonitor = Some True \<rparr> \<rparr>) = Num 0 \<and>
   bestLapTime (merge car_at_start
     (car_at_start \<lparr> sources := \<lparr> src_redmist = None, src_racemonitor = Some True \<rparr> \<rparr>)) = PosInf"
  by (simp add: merge_def car_at_start_def or_num_def)

text \<open>The merge is associative on the maximum, minimum and prefer-present fields.\<close>

lemma Math_max_assoc: "Math_max (Math_max x y) z = Math_max x (Math_max y z)"
  by (cases x; cases y; cases z) (auto simp: max_def)

lemma or_str_assoc: "or_str (or_str x y) z = or_str x (or_str y z)"
  by (simp add: or_str_def)

lemma or_ostr_assoc: "or_ostr (or_ostr x y) z = or_ostr x (or_ostr y z)"
  by (simp add: or_ostr_def)

lemma merge_assoc_laps: "laps (merge (merge a b) c) = laps (merge a (merge b c))"
  by (simp add: merge_def Math_max_assoc)

lemma merge_assoc_bestLapTime:
  "bestLapTime (merge (merge a b) c) = bestLapTime (merge a (merge b c))"
  unfolding merge_bestLapTime
  by (cases "bestLapTime a"; cases "bestLapTime b"; cases "bestLapTime c")
     (auto simp: or_num_def min_def)

lemma merge_assoc_identity:
  "carNumber (merge (merge a b) c) = carNumber (merge a (merge b c))"
  "driverName (merge (merge a b) c) = driverName (merge a (merge b c))"
  "teamName (merge (merge a b) c) = teamName (merge a (merge b c))"
  "className (merge (merge a b) c) = className (merge a (merge b c))"
  by (simp_all add: merge_def or_str_assoc or_ostr_assoc)

lemma merge_idem_other_fields:
  "laps (merge a a) = laps a"
  "carNumber (merge a a) = carNumber a"
  "driverName (merge a a) = driverName a"
  "teamName (merge a a) = teamName a"
  "className (merge a a) = className a"
  by (cases "laps a"; simp add: merge_def or_str_def or_ostr_def)+

text \<open>
  C3. Merging a record with itself changes its best lap time when that is \<open>0\<close>: the result
  is \<open>Infinity\<close>. Idempotence fails on this field; associativity holds on all of them.
\<close>

theorem merge_self_changes_zero_bestLapTime:
  "bestLapTime (merge car_at_start car_at_start) = PosInf \<and>
   bestLapTime (merge car_at_start car_at_start) \<noteq> bestLapTime car_at_start"
  by (simp add: merge_def car_at_start_def or_num_def)

text \<open>
  C2, as stated, fails: a lap history carried only by the first record, and a class position,
  pit count and in-pit flag carried only by the second, are absent from the merge.
\<close>

theorem merge_drops_single_source_fields_counterexample:
  "lapHistory car_with_history \<noteq> None \<and> lapHistory car_with_pit_data = None \<and>
   lapHistory (merge car_with_history car_with_pit_data) = None \<and>
   classPosition car_with_history = None \<and> classPosition car_with_pit_data = Some (Num 3) \<and>
   classPosition (merge car_with_history car_with_pit_data) = None \<and>
   pitCount car_with_pit_data = Some (Num 2) \<and>
   pitCount (merge car_with_history car_with_pit_data) = None \<and>
   inPit car_with_pit_data = Some True \<and>
   inPit (merge car_with_history car_with_pit_data) = None"
  by (simp add: merge_def car_with_history_def car_with_pit_data_def)

text \<open>
  C2, amended. For each field merged with \<open>||\<close> (transponder, car number, driver name, team
  name, class name, position, last lap time, total time): if exactly one input has a value
  that is present (not \<open>undefined\<close>, the empty string, \<open>0\<close> or \<open>NaN\<close>), the merge has that
  value. The lap history is taken wholly from the second record (provider B), and the class
  position, pit count, in-pit flag and flag status wholly from the first (provider A),
  whether present there or not. So no value of these five fields is dropped when the first
  record carries no lap history and the second none of the other four, which is how the two
  converters produce them. A \<open>null\<close> input leaves the other record unchanged.
\<close>

theorem merge_field_policy:
  "keeps_sole_value truthy_str (transponder a) (transponder b) (transponder (merge a b)) \<and>
   keeps_sole_value truthy_str (carNumber a) (carNumber b) (carNumber (merge a b)) \<and>
   keeps_sole_value truthy_str (driverName a) (driverName b) (driverName (merge a b)) \<and>
   keeps_sole_value truthy_ostr (teamName a) (teamName b) (teamName (merge a b)) \<and>
   keeps_sole_value truthy_ostr (className a) (className b) (className (merge a b)) \<and>
   keeps_sole_value truthy_num (position a) (position b) (position (merge a b)) \<and>
   keeps_sole_value truthy_num (lastLapTime a) (lastLapTime b) (lastLapTime (merge a b)) \<and>
   keeps_sole_value truthy_num (totalTime a) (totalTime b) (totalTime (merge a b)) \<and>
   lapHistory (merge a b) = lapHistory b \<and>
   classPosition (merge a b) = classPosition a \<and>
   pitCount (merge a b) = pitCount a \<and>
   inPit (merge a b) = inPit a \<and>
   flagStatus (merge a b) = flagStatus a \<and>
   (lapHistory a = None \<longrightarrow>
      keeps_sole_value (\<lambda>x. x \<noteq> None) (lapHistory a) (lapHistory b) (lapHistory (merge a b))) \<and>
   (classPosition b = None \<longrightarrow>
      keeps_sole_value (\<lambda>x. x \<noteq> None) (classPosition a) (classPosition b)
        (classPosition (merge a b))) \<and>
   (pitCount b = None \<longrightarrow>
      keeps_sole_value (\<lambda>x. x \<noteq> None) (pitCount a) (pitCount b) (pitCount (merge a b))) \<and>
   (inPit b = None \<longrightarrow>
      keeps_sole_value (\<lambda>x. x \<noteq> None) (inPit a) (inPit b) (inPit (merge a b))) \<and>
   (flagStatus b = None \<longrightarrow>
      keeps_sole_value (\<lambda>x. x \<noteq> None) (flagStatus a) (flagStatus b) (flagStatus (merge a b))) \<and>
   mergeCompetitorData None (Some b) = Some b \<and>
   mergeCompetitorData (Some a) None = Some a"
  by (simp add: merge_def keeps_sole_value_def or_str_def or_ostr_def or_num_def)

theorem merge_field_policy_witness:
  "truthy_ostr (teamName car_with_pit_data) \<and> \<not> truthy_ostr (teamName car_with_history) \<and>
   teamName (merge car_with_history car_with_pit_data) = Some ''Team One'' \<and>
   truthy_num (totalTime car_with_history) \<and> \<not> truthy_num (totalTime car_with_pit_data) \<and>
   totalTime (merge car_with_history car_with_pit_data) = Num 90000 \<and>
   lapHistory (merge car_with_pit_data car_with_history) = lapHistory car_with_history"
  using merge_field_policy [of car_with_history car_with_pit_data]
    merge_field_policy [of car_with_pit_data car_with_history]
  by (simp add: keeps_sole_value_def car_with_history_def car_with_pit_data_def truthy_str_def)


section \<open>Properties of the pace analyzer\<close>

lemma foldl_add_sum: "foldl (\<lambda>a b. a + b) (s::real) ts = s + sum_list ts"
  by (induction ts arbitrary: s) auto

lemma calculateTruePace_green:
  "truePace (calculateTruePace h True) =
    (if green_times h = [] then Num 0
     else if length (green_times h) \<le> 3 then js_mean (green_times h)
     else js_mean (filter (\<lambda>t. t < green_mean h * 1.5) (green_times h)))"
proof -
  have g: "map lapTime (filter (\<lambda>l. lap_flagStatus l = Green) h) = green_times h"
    by (simp add: green_times_def)
  have l: "length (filter (\<lambda>l. lap_flagStatus l = Green) h) = length (green_times h)"
    by (simp add: green_times_def)
  show ?thesis
    unfolding calculateTruePace_def Let_def g l green_mean_def foldl_add_sum
    by (simp add: not_le)
qed

lemma example_green_times:
  "green_times example_history5 = [90000, 91000, 200000, 90000, 91000]"
  "green_times example_history = [90000, 91000, 200000]"
  by (simp_all add: green_times_def example_history5_def example_history_def example_lap_def)

text \<open>
  C1, as stated, fails on the specification's own example: it has three green laps, the
  outlier filter runs only on more than three, and true pace is the mean of all three green
  laps, 127000 ms.
\<close>

theorem true_pace_example_counterexample:
  "truePace (calculateTruePace example_history True) = Num 127000 \<and>
   truePace (calculateTruePace example_history True) \<noteq> Num 90500"
  by (simp add: calculateTruePace_def example_history_def example_lap_def js_mean_def Let_def)

text \<open>
  C1, amended. With outlier exclusion enabled: a history with no green lap has true pace 0;
  with one to three green laps, true pace is the mean of all green laps, none excluded; with
  more than three green laps, none of which lies exactly on 1.5 times the unfiltered
  green-lap mean, true pace is the mean of the green laps whose times do not exceed 1.5 times
  that mean, the mean being computed once, before filtering (\<open>NaN\<close> if no lap remains).
\<close>

theorem true_pace_by_sample_size:
  "(green_times h = [] \<longrightarrow> truePace (calculateTruePace h True) = Num 0) \<and>
   (green_times h \<noteq> [] \<and> length (green_times h) \<le> 3 \<longrightarrow>
      truePace (calculateTruePace h True) = js_mean (green_times h)) \<and>
   (3 < length (green_times h) \<and> (\<forall>t \<in> set (green_times h). t \<noteq> 1.5 * green_mean h) \<longrightarrow>
      truePace (calculateTruePace h True) = spec_true_pace h)"
proof (intro conjI impI)
  assume "green_times h = []"
  then show "truePace (calculateTruePace h True) = Num 0"
    by (simp add: calculateTruePace_green)
next
  assume "green_times h \<noteq> [] \<and> length (green_times h) \<le> 3"
  then show "truePace (calculateTruePace h True) = js_mean (green_times h)"
    by (simp add: calculateTruePace_green)
next
  assume a: "3 < length (green_times h) \<and> (\<forall>t \<in> set (green_times h). t \<noteq> 1.5 * green_mean h)"
  then have ne: "green_times h \<noteq> []" by auto
  have "filter (\<lambda>t. t < green_mean h * 1.5) (green_times h)
      = filter (\<lambda>t. t \<le> 1.5 * green_mean h) (green_times h)"
    using a by (intro filter_cong) (auto simp: mult.commute)
  then show "truePace (calculateTruePace h True) = spec_true_pace h"
    using a ne by (simp add: calculateTruePace_green spec_true_pace_def)
qed

theorem true_pace_by_sample_size_witness:
  "truePace (calculateTruePace example_history5 True) = spec_true_pace example_history5 \<and>
   spec_true_pace example_history5 = Num 90500 \<and>
   truePace (calculateTruePace example_history True) = js_mean (green_times example_history) \<and>
   js_mean (green_times example_history) = Num 127000"
  using true_pace_by_sample_size [of example_history5] true_pace_by_sample_size [of example_history]
  by (simp add: example_green_times green_mean_def spec_true_pace_def js_mean_def)


section \<open>Properties of the replay reconstructor\<close>

text \<open>
  The insertion sort meets the contract of the engine's sort: it permutes the list and,
  for a consistent comparator, sorts it and is stable.
\<close>

lemma mset_insert_by: "mset (insert_by cmp x ys) = add_mset x (mset ys)"
  by (induction ys) auto

lemma mset_stable_sort_by: "mset (stable_sort_by cmp xs) = mset xs"
  unfolding stable_sort_by_def by (induction xs) (auto simp: mset_insert_by)


lemma set_stable_sort_by: "set (stable_sort_by cmp xs) = set xs"
  using mset_stable_sort_by [of cmp xs] by (metis set_mset_mset)

lemma stable_sort_by_contract: "sort_contract stable_sort_by"
  by (simp add: sort_contract_def mset_stable_sort_by)


lemma js_positive_sign: "js_positive v \<longleftrightarrow> js_sign v = Some 1"
  by (cases v) auto








text \<open>The insertion sort is stable: entries that compare equal keep their order.\<close>

lemma insert_by_filter:
  assumes "\<And>y. y \<in> set ys \<Longrightarrow> P x \<Longrightarrow> P y \<Longrightarrow> \<not> js_positive (cmp x y)"
  shows "filter P (insert_by cmp x ys) = filter P (x # ys)"
  using assms by (induction ys) auto

lemma stable_sort_by_filter:
  assumes "\<And>x y. x \<in> set xs \<Longrightarrow> y \<in> set xs \<Longrightarrow> P x \<Longrightarrow> P y \<Longrightarrow> \<not> js_positive (cmp x y)"
  shows "filter P (stable_sort_by cmp xs) = filter P xs"
  using assms
proof (induction xs)
  case Nil
  show ?case by (simp add: stable_sort_by_def)
next
  case (Cons x xs)
  have ih: "filter P (stable_sort_by cmp xs) = filter P xs"
    using Cons by simp
  have "filter P (insert_by cmp x (stable_sort_by cmp xs)) = filter P (x # stable_sort_by cmp xs)"
    using Cons.prems by (intro insert_by_filter) (simp add: set_stable_sort_by)
  then show ?case using ih by (simp add: stable_sort_by_def)
qed

lemma stable_sort_by_stable:
  assumes c: "consistent_comparator cmp xs" and k: "k \<in> set xs"
  shows "filter (\<lambda>y. js_sign (cmp k y) = Some 0) (stable_sort_by cmp xs)
       = filter (\<lambda>y. js_sign (cmp k y) = Some 0) xs"
proof (rule stable_sort_by_filter)
  fix x y
  assume x: "x \<in> set xs" and y: "y \<in> set xs"
    and "js_sign (cmp k x) = Some 0" "js_sign (cmp k y) = Some 0"
  moreover from this have "js_sign (cmp x k) = Some 0"
    using c k unfolding consistent_comparator_def by blast
  ultimately have "js_sign (cmp x y) = Some 0"
    using c k unfolding consistent_comparator_def by blast
  then show "\<not> js_positive (cmp x y)" by (simp add: js_positive_sign)
qed









lemma sorter_mset:
  assumes "sort_contract sorter"
  shows "mset (sorter cmp xs) = mset xs"
  using assms unfolding sort_contract_def by blast



lemma assign_positions_length: "length (assign_positions xs) = length xs"
  by (simp add: assign_positions_def)

lemma assign_positions_nth:
  "i < length xs \<Longrightarrow>
     assign_positions xs ! i
       = (xs ! i) \<lparr> cp_p := Some (Num (real (i + 1))), cp_ovp := Some (Num (real (i + 1))) \<rparr>"
  by (simp add: assign_positions_def nth_enumerate_eq)

lemma erase_assign_positions: "map erase_display (assign_positions xs) = map erase_display xs"
  by (rule nth_equalityI)
     (simp_all add: assign_positions_length assign_positions_nth erase_display_def)

lemma cp_n_erase_display: "cp_n (erase_display e) = cp_n e"
  by (simp add: erase_display_def)

lemma find_lap_entry_cases:
  assumes "1 \<le> lap"
  shows "find_lap_entry lap ls =
     (if lap \<le> int (length ls) then Some (ls ! nat (lap - 1))
      else List.find (\<lambda>l. lap_number_of l = Num (real_of_int lap)) ls)"
  using assms by (simp add: find_lap_entry_def)

lemma candidate_None_iff:
  assumes "1 \<le> lap"
  shows "candidate lap c = None \<longleftrightarrow> cld_laps c = []"
  using assms
  by (auto simp: candidate_def find_lap_entry_cases split: option.splits)

lemma candidate_cp_n: "candidate lap c = Some e \<Longrightarrow> cp_n e = Some (cld_carNumber c)"
  by (auto simp: candidate_def found_entry_def carried_entry_def Let_def split: option.splits if_splits)

lemma candidates_car_numbers:
  assumes "1 \<le> lap"
  shows "map cp_n (candidates lap lapData)
       = map (Some \<circ> cld_carNumber) (filter (\<lambda>c. cld_laps c \<noteq> []) lapData)"
proof (induction lapData)
  case Nil
  show ?case by (simp add: candidates_def)
next
  case (Cons c cs)
  show ?case
  proof (cases "candidate lap c")
    case None
    then have "cld_laps c = []" using candidate_None_iff [OF assms] by blast
    with None Cons show ?thesis by (simp add: candidates_def)
  next
    case (Some e)
    then have "cld_laps c \<noteq> []" using candidate_None_iff [OF assms, of c] by auto
    with Some Cons candidate_cp_n [OF Some] show ?thesis
      by (simp add: candidates_def)
  qed
qed

lemma snapshot_entries:
  assumes "sort_contract sorter"
  shows "mset (map erase_display (updatePositionsAtLap sorter lap lapData))
       = mset (map erase_display (List.map_filter (candidate lap) lapData))"
proof -
  have "map erase_display (updatePositionsAtLap sorter lap lapData)
      = map erase_display (sorter compare_cars (candidates lap lapData))"
    by (simp only: updatePositionsAtLap_def erase_assign_positions)
  then have "mset (map erase_display (updatePositionsAtLap sorter lap lapData))
      = image_mset erase_display (mset (sorter compare_cars (candidates lap lapData)))"
    by simp
  also have "\<dots> = image_mset erase_display (mset (candidates lap lapData))"
    by (simp only: sorter_mset [OF assms])
  finally show ?thesis by (simp add: candidates_def)
qed

lemma snapshot_car_numbers:
  assumes "1 \<le> lap" "sort_contract sorter"
  shows "mset (map cp_n (updatePositionsAtLap sorter lap lapData))
       = mset (map (Some \<circ> cld_carNumber) (filter (\<lambda>c. cld_laps c \<noteq> []) lapData))"
proof -
  have "map cp_n (updatePositionsAtLap sorter lap lapData)
      = map cp_n (map erase_display (updatePositionsAtLap sorter lap lapData))"
    by (simp add: cp_n_erase_display)
  then have "mset (map cp_n (updatePositionsAtLap sorter lap lapData))
      = image_mset cp_n (mset (map erase_display (updatePositionsAtLap sorter lap lapData)))"
    by (simp only: mset_map)
  also have "\<dots> = image_mset cp_n (mset (map erase_display (candidates lap lapData)))"
    by (simp only: snapshot_entries [OF assms(2)] candidates_def)
  also have "\<dots> = mset (map cp_n (candidates lap lapData))"
    by (simp add: cp_n_erase_display multiset.map_comp comp_def)
  finally show ?thesis by (simp only: candidates_car_numbers [OF assms(1)])
qed

text \<open>
  C4, amended. For a requested lap of at least 1: a car with no history is omitted; a car
  whose history has at least that many records is shown with the record at array position
  lap - 1; a car with a non-empty, shorter history is shown with the first record whose
  explicit lap number equals the requested lap if there is one, and otherwise is carried
  forward from its last record, annotated with the lap number that record carries. The
  entry carries the car's number and class and the other fields of the record. The
  snapshot holds exactly these entries, each car's entry with the record so chosen (the
  display fields \<open>p\<close> and \<open>ovp\<close> apart, which the renumbering overwrites): every car with a
  non-empty history appears exactly once and no other car appears. This holds for every
  sort of the engine, which permutes the entries. (What the annotation is when the last
  record carries neither \<open>l\<close> nor \<open>ln\<close> is not stated.)
\<close>

theorem replay_candidates:
  assumes "1 \<le> lap" and "sort_contract sorter"
  shows
    "(cld_laps c = [] \<longrightarrow> candidate lap c = None) \<and>
     (lap \<le> int (length (cld_laps c)) \<longrightarrow>
        candidate lap c = Some (found_entry c (cld_laps c ! nat (lap - 1)))) \<and>
     (cld_laps c \<noteq> [] \<and> int (length (cld_laps c)) < lap \<longrightarrow>
        (\<forall>e. List.find (\<lambda>l. lap_number_of l = Num (real_of_int lap)) (cld_laps c) = Some e \<longrightarrow>
              candidate lap c = Some (found_entry c e)) \<and>
        (List.find (\<lambda>l. lap_number_of l = Num (real_of_int lap)) (cld_laps c) = None \<and>
         carries_lap_number (last (cld_laps c)) \<longrightarrow>
           candidate lap c = Some (carried_entry c (last (cld_laps c))) \<and>
           cp_l (carried_entry c (last (cld_laps c))) = Some (lap_number_of (last (cld_laps c))))) \<and>
     (cp_n (found_entry c r) = Some (cld_carNumber c) \<and>
      cp_c (found_entry c r) = cld_className c \<and>
      cp_l (found_entry c r) = cp_l r \<and> cp_ln (found_entry c r) = cp_ln r \<and>
      cp_llo (found_entry c r) = cp_llo r \<and> cp_llp (found_entry c r) = cp_llp r \<and>
      cp_ltm (found_entry c r) = cp_ltm r) \<and>
     (cp_n (carried_entry c r) = Some (cld_carNumber c) \<and>
      cp_c (carried_entry c r) = cld_className c \<and>
      cp_l (carried_entry c r) = Some (lap_number_of r) \<and> cp_ln (carried_entry c r) = cp_ln r \<and>
      cp_llo (carried_entry c r) = cp_llo r \<and> cp_llp (carried_entry c r) = cp_llp r \<and>
      cp_ltm (carried_entry c r) = cp_ltm r) \<and>
     mset (map erase_display (updatePositionsAtLap sorter lap lapData))
       = mset (map erase_display (List.map_filter (candidate lap) lapData)) \<and>
     mset (map cp_n (updatePositionsAtLap sorter lap lapData))
       = mset (map (Some \<circ> cld_carNumber) (filter (\<lambda>c. cld_laps c \<noteq> []) lapData))"
proof (intro impI conjI allI)
  assume "cld_laps c = []"
  then show "candidate lap c = None" using assms(1) by (simp add: candidate_None_iff)
next
  assume "lap \<le> int (length (cld_laps c))"
  then show "candidate lap c = Some (found_entry c (cld_laps c ! nat (lap - 1)))"
    using assms(1) by (simp add: candidate_def find_lap_entry_cases)
next
  fix e
  assume "cld_laps c \<noteq> [] \<and> int (length (cld_laps c)) < lap"
    "List.find (\<lambda>l. lap_number_of l = Num (real_of_int lap)) (cld_laps c) = Some e"
  then show "candidate lap c = Some (found_entry c e)"
    using assms(1) by (simp add: candidate_def find_lap_entry_cases)
next
  assume "cld_laps c \<noteq> [] \<and> int (length (cld_laps c)) < lap"
    "List.find (\<lambda>l. lap_number_of l = Num (real_of_int lap)) (cld_laps c) = None \<and>
     carries_lap_number (last (cld_laps c))"
  then show "candidate lap c = Some (carried_entry c (last (cld_laps c)))"
    using assms(1) by (simp add: candidate_def find_lap_entry_cases)
next
  show "cp_l (carried_entry c (last (cld_laps c))) = Some (lap_number_of (last (cld_laps c)))"
    by (simp add: carried_entry_def)
next
  show "cp_n (found_entry c r) = Some (cld_carNumber c)" "cp_c (found_entry c r) = cld_className c"
    "cp_l (found_entry c r) = cp_l r" "cp_ln (found_entry c r) = cp_ln r"
    "cp_llo (found_entry c r) = cp_llo r" "cp_llp (found_entry c r) = cp_llp r"
    "cp_ltm (found_entry c r) = cp_ltm r"
    by (simp_all add: found_entry_def Let_def)
next
  show "cp_n (carried_entry c r) = Some (cld_carNumber c)"
    "cp_c (carried_entry c r) = cld_className c"
    "cp_l (carried_entry c r) = Some (lap_number_of r)" "cp_ln (carried_entry c r) = cp_ln r"
    "cp_llo (carried_entry c r) = cp_llo r" "cp_llp (carried_entry c r) = cp_llp r"
    "cp_ltm (carried_entry c r) = cp_ltm r"
    by (simp_all add: carried_entry_def Let_def)
next
  show "mset (map erase_display (updatePositionsAtLap sorter lap lapData))
       = mset (map erase_display (List.map_filter (candidate lap) lapData))"
    using assms(2) by (rule snapshot_entries)
next
  show "mset (map cp_n (updatePositionsAtLap sorter lap lapData))
       = mset (map (Some \<circ> cld_carNumber) (filter (\<lambda>c. cld_laps c \<noteq> []) lapData))"
    using assms by (rule snapshot_car_numbers)
qed

lemma example_car_B:
  "cld_laps car_B \<noteq> [] \<and> int (length (cld_laps car_B)) < 4"
  "List.find (\<lambda>l. lap_number_of l = Num (real_of_int 4)) (cld_laps car_B) = None \<and>
   carries_lap_number (last (cld_laps car_B))"
  "last (cld_laps car_B) = lap_record 3 2 ''1:34.200''"
  "lap_number_of (lap_record 3 2 ''1:34.200'') = Num 3"
  by code_simp+

lemma example_car_A:
  "4 \<le> int (length (cld_laps car_A))"
  "cld_laps car_A ! nat (4 - 1) = lap_record 4 1 ''1:30.100''"
  by code_simp+

lemma example_cars_with_history:
  "map (Some \<circ> cld_carNumber) (filter (\<lambda>c. cld_laps c \<noteq> []) [car_A, car_B, car_C])
     = [Some ''A'', Some ''B'']"
  by code_simp

lemma example_entries_shown:
  "map erase_display (List.map_filter (candidate 4) [car_A, car_B, car_C])
     = [erase_display (found_entry car_A (lap_record 4 1 ''1:30.100'')),
        erase_display (carried_entry car_B (lap_record 3 2 ''1:34.200''))]"
  by code_simp

lemma example_snapshot:
  "updatePositionsAtLap stable_sort_by 4 [car_A, car_B, car_C]
     = [\<lparr> cp_n = Some ''A'', cp_c = Some ''GT'', cp_l = Some (Num 4), cp_ln = None,
          cp_llo = None, cp_ovp = Some (Num 1), cp_p = Some (Num 1), cp_llp = None,
          cp_ltm = Some ''1:30.100'' \<rparr>,
        \<lparr> cp_n = Some ''B'', cp_c = Some ''GT'', cp_l = Some (Num 3), cp_ln = None,
          cp_llo = None, cp_ovp = Some (Num 2), cp_p = Some (Num 2), cp_llp = None,
          cp_ltm = Some ''1:34.200'' \<rparr>]"
  by code_simp

theorem replay_candidates_witness:
  "candidate 4 car_C = None \<and>
   candidate 4 car_A = Some (found_entry car_A (lap_record 4 1 ''1:30.100'')) \<and>
   candidate 4 car_B = Some (carried_entry car_B (lap_record 3 2 ''1:34.200'')) \<and>
   cp_l (carried_entry car_B (lap_record 3 2 ''1:34.200'')) = Some (Num 3) \<and>
   mset (map erase_display (updatePositionsAtLap stable_sort_by 4 [car_A, car_B, car_C]))
     = mset [erase_display (found_entry car_A (lap_record 4 1 ''1:30.100'')),
             erase_display (carried_entry car_B (lap_record 3 2 ''1:34.200''))] \<and>
   mset (map cp_n (updatePositionsAtLap stable_sort_by 4 [car_A, car_B, car_C]))
     = mset [Some ''A'', Some ''B''] \<and>
   cp_c (found_entry car_A (lap_record 4 1 ''1:30.100'')) = Some ''GT'' \<and>
   cp_ltm (found_entry car_A (lap_record 4 1 ''1:30.100'')) = Some ''1:30.100'' \<and>
   updatePositionsAtLap stable_sort_by 4 [car_A, car_B, car_C]
     = [\<lparr> cp_n = Some ''A'', cp_c = Some ''GT'', cp_l = Some (Num 4), cp_ln = None,
          cp_llo = None, cp_ovp = Some (Num 1), cp_p = Some (Num 1), cp_llp = None,
          cp_ltm = Some ''1:30.100'' \<rparr>,
        \<lparr> cp_n = Some ''B'', cp_c = Some ''GT'', cp_l = Some (Num 3), cp_ln = None,
          cp_llo = None, cp_ovp = Some (Num 2), cp_p = Some (Num 2), cp_llp = None,
          cp_ltm = Some ''1:34.200'' \<rparr>]"
proof -
  have le: "(1::int) \<le> 4" by simp
  have c: "cld_laps car_C = []" by (simp add: car_C_def)
  note C = replay_candidates [OF le stable_sort_by_contract, where c = car_C
      and lapData = "[car_A, car_B, car_C]"]
  note A = replay_candidates [OF le stable_sort_by_contract, where c = car_A
      and r = "lap_record 4 1 ''1:30.100''"]
  note B = replay_candidates [OF le stable_sort_by_contract, where c = car_B]
  have 1: "candidate 4 car_C = None" using C c by blast
  have "candidate 4 car_A = Some (found_entry car_A (cld_laps car_A ! nat (4 - 1)))"
    using A example_car_A(1) by blast
  then have 2: "candidate 4 car_A = Some (found_entry car_A (lap_record 4 1 ''1:30.100''))"
    by (simp only: example_car_A(2))
  have "candidate 4 car_B = Some (carried_entry car_B (last (cld_laps car_B))) \<and>
      cp_l (carried_entry car_B (last (cld_laps car_B))) = Some (lap_number_of (last (cld_laps car_B)))"
    using B example_car_B(1,2) by blast
  then have 3: "candidate 4 car_B = Some (carried_entry car_B (lap_record 3 2 ''1:34.200'')) \<and>
      cp_l (carried_entry car_B (lap_record 3 2 ''1:34.200'')) = Some (Num 3)"
    by (simp only: example_car_B(3,4))
  have "mset (map erase_display (updatePositionsAtLap stable_sort_by 4 [car_A, car_B, car_C]))
      = mset (map erase_display (List.map_filter (candidate 4) [car_A, car_B, car_C]))"
    using C by blast
  then have 4: "mset (map erase_display (updatePositionsAtLap stable_sort_by 4 [car_A, car_B, car_C]))
     = mset [erase_display (found_entry car_A (lap_record 4 1 ''1:30.100'')),
             erase_display (carried_entry car_B (lap_record 3 2 ''1:34.200''))]"
    by (simp only: example_entries_shown)
  have "mset (map cp_n (updatePositionsAtLap stable_sort_by 4 [car_A, car_B, car_C]))
      = mset (map (Some \<circ> cld_carNumber) (filter (\<lambda>c. cld_laps c \<noteq> []) [car_A, car_B, car_C]))"
    using C by blast
  then have 5: "mset (map cp_n (updatePositionsAtLap stable_sort_by 4 [car_A, car_B, car_C]))
      = mset [Some ''A'', Some ''B'']"
    by (simp only: example_cars_with_history)
  have "cp_c (found_entry car_A (lap_record 4 1 ''1:30.100'')) = cld_className car_A \<and>
      cp_ltm (found_entry car_A (lap_record 4 1 ''1:30.100'')) = cp_ltm (lap_record 4 1 ''1:30.100'')"
    using A by blast
  then have 6: "cp_c (found_entry car_A (lap_record 4 1 ''1:30.100'')) = Some ''GT'' \<and>
      cp_ltm (found_entry car_A (lap_record 4 1 ''1:30.100'')) = Some ''1:30.100''"
    by (simp add: car_A_def lap_record_def)
  from 1 2 3 4 5 6 example_snapshot show ?thesis by blast
qed

text \<open>
  C4, as stated, fails: a car with three records, for laps 2, 4 and 5, asked for lap 4, has
  a history shorter than the requested lap, and is shown with its lap-4 record, found by
  the search for the explicit lap number, not with its most recent record (lap 5).
\<close>

theorem sparse_history_counterexample:
  "cld_laps car_sparse \<noteq> [] \<and> int (length (cld_laps car_sparse)) < 4 \<and>
   last (cld_laps car_sparse) = lap_record 5 3 ''1:31.000'' \<and>
   map (\<lambda>e. (cp_n e, cp_l e, cp_ltm e)) (updatePositionsAtLap stable_sort_by 4 [car_sparse])
     = [(Some ''S'', Some (Num 4), Some ''1:32.000'')]"
  by code_simp








section \<open>Properties of the token manager\<close>

lemma valid_cached_token_iff:
  assumes "0 \<le> now"
  shows "valid_cached_token now tm = Some t \<longleftrightarrow> cached_beyond_margin now tm t"
  using assms
  by (auto simp: valid_cached_token_def cached_beyond_margin_def TOKEN_REFRESH_MARGIN_def
        truthy_str_def split: option.splits)

lemma getToken_call_cached:
  "fst (getToken_call now tm) = ReturnsCached t \<longleftrightarrow> valid_cached_token now tm = Some t"
  by (auto simp: getToken_call_def split: option.splits)

lemma getToken_call_cached_pure:
  "valid_cached_token now tm = Some t \<Longrightarrow> getToken_call now tm = (ReturnsCached t, tm, [])"
  by (simp add: getToken_call_def)

lemma refresh_settles_failure:
  "is_failure (fst (refresh_settles now response p tm)) \<longleftrightarrow> p = AlreadyRejected \<or> exchange_fails response"
  by (cases p; cases response) (simp_all add: refresh_settles_def)

lemma refresh_settles_effects:
  "filter is_exchange (snd (snd (refresh_settles now response p tm))) = []"
  by (cases p; cases response) (simp_all add: refresh_settles_def)

lemma refresh_settles_clears:
  "refreshPromise (fst (snd (refresh_settles now response p tm))) = None"
  by (cases p; cases response) (simp_all add: refresh_settles_def)

lemma refresh_settles_failure_keeps:
  assumes "is_failure (fst (refresh_settles now response p tm))"
  shows "accessToken (fst (snd (refresh_settles now response p tm))) = accessToken tm"
    and "tokenExpiry (fst (snd (refresh_settles now response p tm))) = tokenExpiry tm"
    and "config (fst (snd (refresh_settles now response p tm))) = config tm"
    and "snd (snd (refresh_settles now response p tm)) = []"
  using assms by (cases p; cases response; simp add: refresh_settles_def)+

lemma getToken_uncached:
  assumes "valid_cached_token now tm = None"
  shows "getToken now later response tm =
    (case refreshPromise tm of
       Some p \<Rightarrow> refresh_settles later response p tm
     | None \<Rightarrow>
        (case config tm of
           None \<Rightarrow> refresh_settles later response AlreadyRejected (tm \<lparr> refreshPromise := Some AlreadyRejected \<rparr>)
         | Some cfg \<Rightarrow>
            (case refresh_settles later response AwaitingResponse (tm \<lparr> refreshPromise := Some AwaitingResponse \<rparr>)
             of (r, tm', fx) \<Rightarrow> (r, tm', ExchangeRequest (clientId cfg) (clientSecret cfg) # fx))))"
  using assms by (simp add: getToken_def getToken_call_def split: option.splits prod.splits)

lemma valid_cached_token_None_iff:
  assumes "0 \<le> now"
  shows "valid_cached_token now tm = None \<longleftrightarrow> (\<forall>t. \<not> cached_beyond_margin now tm t)"
  using valid_cached_token_iff [OF assms, of tm] by (metis option.exhaust option.distinct(1))

lemma getToken_new_refresh:
  assumes "valid_cached_token now tm = None" "refreshPromise tm = None" "config tm = Some cfg"
  shows "getToken now later (TokenResponse tok expires_in) tm =
       (Inr tok,
        tm \<lparr> accessToken := Some tok, tokenExpiry := Some (later + expires_in * 1000) \<rparr>,
        [ExchangeRequest (clientId cfg) (clientSecret cfg), NotifyListeners (Some tok)])"
    and "getToken now later (HttpFailure status errorText) tm =
       (Inl (AuthenticationFailed status errorText), tm,
        [ExchangeRequest (clientId cfg) (clientSecret cfg)])"
    and "getToken now later NetworkFailure tm =
       (Inl ExchangeRejected, tm, [ExchangeRequest (clientId cfg) (clientSecret cfg)])"
  using assms by (simp_all add: getToken_uncached refresh_settles_def)

lemma getToken_not_configured:
  assumes "valid_cached_token now tm = None" "refreshPromise tm = None" "config tm = None"
  shows "getToken now later response tm = (Inl NotConfigured, tm, [])"
  using assms by (simp add: getToken_uncached refresh_settles_def)

lemma getToken_in_flight:
  assumes "valid_cached_token now tm = None" "refreshPromise tm = Some AwaitingResponse"
  shows "getToken now later (TokenResponse tok expires_in) tm =
       (Inr tok,
        tm \<lparr> accessToken := Some tok, tokenExpiry := Some (later + expires_in * 1000),
             refreshPromise := None \<rparr>,
        [NotifyListeners (Some tok)])"
  using assms by (simp add: getToken_uncached refresh_settles_def)


text \<open>
  C9, amended. At an instant \<open>now \<ge> 0\<close>, \<open>getToken\<close> returns the cached token at once, with no
  exchange and no change of state, if and only if a cached token exists whose expiry lies
  more than the 30-second margin after now; so a token is never returned from the cache if
  it expires within 30 seconds of now. Otherwise \<open>getToken\<close> starts a refresh, or awaits
  the one in flight, and fails exactly when no configuration is set or the exchange fails:
  with \<open>NotConfigured\<close> and no request when no configuration is set, with the provider's
  status and text when the response is not \<open>ok\<close>, with the rejection when the request
  fails, in each case leaving the manager as it was. A started refresh sends the exchange
  request exactly when a configuration is set. When the exchange succeeds, its token is
  returned whatever its lifetime \<open>expires_in\<close>, stored as the cached token with the expiry
  \<open>later + expires_in * 1000\<close>, and the listeners are notified of it.
\<close>

theorem getToken_contract:
  assumes "0 \<le> now"
  shows
   "(fst (getToken_call now tm) = ReturnsCached t \<longleftrightarrow> cached_beyond_margin now tm t) \<and>
    (cached_beyond_margin now tm t \<longrightarrow>
       getToken_call now tm = (ReturnsCached t, tm, []) \<and>
       getToken now later response tm = (Inr t, tm, []) \<and>
       (\<exists>expiry. tokenExpiry tm = Some expiry \<and> now + 30000 < expiry)) \<and>
    (valid_cached_token now tm = None \<and> refreshPromise tm = None \<longrightarrow>
       (is_failure (fst (getToken now later response tm))
          \<longleftrightarrow> config tm = None \<or> exchange_fails response) \<and>
       (filter is_exchange (snd (snd (getToken now later response tm))) \<noteq> []
          \<longleftrightarrow> config tm \<noteq> None)) \<and>
    (valid_cached_token now tm = None \<and> refreshPromise tm = Some p \<longrightarrow>
       getToken now later response tm = refresh_settles later response p tm \<and>
       filter is_exchange (snd (snd (getToken now later response tm))) = [] \<and>
       (is_failure (fst (getToken now later response tm))
          \<longleftrightarrow> p = AlreadyRejected \<or> exchange_fails response)) \<and>
    (valid_cached_token now tm = None \<longleftrightarrow> (\<forall>t'. \<not> cached_beyond_margin now tm t')) \<and>
    ((\<forall>t'. \<not> cached_beyond_margin now tm t') \<and> refreshPromise tm = None \<and> config tm = Some cfg \<longrightarrow>
       getToken now later (TokenResponse tok expires_in) tm =
         (Inr tok,
          tm \<lparr> accessToken := Some tok, tokenExpiry := Some (later + expires_in * 1000) \<rparr>,
          [ExchangeRequest (clientId cfg) (clientSecret cfg), NotifyListeners (Some tok)]) \<and>
       getToken now later (HttpFailure status errorText) tm =
         (Inl (AuthenticationFailed status errorText), tm,
          [ExchangeRequest (clientId cfg) (clientSecret cfg)]) \<and>
       getToken now later NetworkFailure tm =
         (Inl ExchangeRejected, tm, [ExchangeRequest (clientId cfg) (clientSecret cfg)])) \<and>
    ((\<forall>t'. \<not> cached_beyond_margin now tm t') \<and> refreshPromise tm = None \<and> config tm = None \<longrightarrow>
       getToken now later response tm = (Inl NotConfigured, tm, [])) \<and>
    ((\<forall>t'. \<not> cached_beyond_margin now tm t') \<and> refreshPromise tm = Some AwaitingResponse \<longrightarrow>
       getToken now later (TokenResponse tok expires_in) tm =
         (Inr tok,
          tm \<lparr> accessToken := Some tok, tokenExpiry := Some (later + expires_in * 1000),
               refreshPromise := None \<rparr>,
          [NotifyListeners (Some tok)]))"
proof (intro conjI impI)
  show "fst (getToken_call now tm) = ReturnsCached t \<longleftrightarrow> cached_beyond_margin now tm t"
    by (simp add: getToken_call_cached valid_cached_token_iff [OF assms])
next
  assume c: "cached_beyond_margin now tm t"
  then have v: "valid_cached_token now tm = Some t"
    by (simp add: valid_cached_token_iff [OF assms])
  then show "getToken_call now tm = (ReturnsCached t, tm, [])"
    by (rule getToken_call_cached_pure)
  then show "getToken now later response tm = (Inr t, tm, [])"
    by (simp add: getToken_def)
  from c show "\<exists>expiry. tokenExpiry tm = Some expiry \<and> now + 30000 < expiry"
    by (auto simp: cached_beyond_margin_def split: option.splits)
next
  assume a: "valid_cached_token now tm = None \<and> refreshPromise tm = None"
  then show "is_failure (fst (getToken now later response tm))
          \<longleftrightarrow> config tm = None \<or> exchange_fails response"
    by (cases response; cases "config tm") (simp_all add: getToken_uncached refresh_settles_def)
  from a show "filter is_exchange (snd (snd (getToken now later response tm))) \<noteq> []
          \<longleftrightarrow> config tm \<noteq> None"
    by (cases response; cases "config tm") (simp_all add: getToken_uncached refresh_settles_def)
next
  assume a: "valid_cached_token now tm = None \<and> refreshPromise tm = Some p"
  then show g: "getToken now later response tm = refresh_settles later response p tm"
    by (simp add: getToken_uncached)
  show "filter is_exchange (snd (snd (getToken now later response tm))) = []"
    by (simp only: g refresh_settles_effects)
  show "is_failure (fst (getToken now later response tm))
          \<longleftrightarrow> p = AlreadyRejected \<or> exchange_fails response"
    by (simp only: g refresh_settles_failure)
next
  show "valid_cached_token now tm = None \<longleftrightarrow> (\<forall>t'. \<not> cached_beyond_margin now tm t')"
    using assms by (rule valid_cached_token_None_iff)
next
  assume a: "(\<forall>t'. \<not> cached_beyond_margin now tm t') \<and> refreshPromise tm = None \<and> config tm = Some cfg"
  then have v: "valid_cached_token now tm = None"
    by (simp add: valid_cached_token_None_iff [OF assms])
  from a have r: "refreshPromise tm = None" and c: "config tm = Some cfg" by simp_all
  show "getToken now later (TokenResponse tok expires_in) tm =
         (Inr tok,
          tm \<lparr> accessToken := Some tok, tokenExpiry := Some (later + expires_in * 1000) \<rparr>,
          [ExchangeRequest (clientId cfg) (clientSecret cfg), NotifyListeners (Some tok)])"
    using v r c by (rule getToken_new_refresh(1))
  show "getToken now later (HttpFailure status errorText) tm =
         (Inl (AuthenticationFailed status errorText), tm,
          [ExchangeRequest (clientId cfg) (clientSecret cfg)])"
    using v r c by (rule getToken_new_refresh(2))
  show "getToken now later NetworkFailure tm =
         (Inl ExchangeRejected, tm, [ExchangeRequest (clientId cfg) (clientSecret cfg)])"
    using v r c by (rule getToken_new_refresh(3))
next
  assume a: "(\<forall>t'. \<not> cached_beyond_margin now tm t') \<and> refreshPromise tm = None \<and> config tm = None"
  then have v: "valid_cached_token now tm = None"
    by (simp add: valid_cached_token_None_iff [OF assms])
  from a show "getToken now later response tm = (Inl NotConfigured, tm, [])"
    using v by (simp add: getToken_not_configured)
next
  assume a: "(\<forall>t'. \<not> cached_beyond_margin now tm t') \<and> refreshPromise tm = Some AwaitingResponse"
  then have v: "valid_cached_token now tm = None"
    by (simp add: valid_cached_token_None_iff [OF assms])
  from a show "getToken now later (TokenResponse tok expires_in) tm =
         (Inr tok,
          tm \<lparr> accessToken := Some tok, tokenExpiry := Some (later + expires_in * 1000),
               refreshPromise := None \<rparr>,
          [NotifyListeners (Some tok)])"
    using v by (simp add: getToken_in_flight)
qed

lemma manager_facts:
  "cached_beyond_margin 60000 manager_with_token ''old''"
  "valid_cached_token 80000 manager_with_token = None \<and> refreshPromise manager_with_token = None"
  "config manager_with_token \<noteq> None"
  by (simp_all add: cached_beyond_margin_def valid_cached_token_def manager_with_token_def
        fresh_manager_def TOKEN_REFRESH_MARGIN_def truthy_str_def)


lemma manager_uncached:
  "\<forall>t'. \<not> cached_beyond_margin 80000 manager_with_token t'"
  "refreshPromise manager_with_token = None"
  "config manager_with_token = Some \<lparr> clientId = ''client'', clientSecret = ''secret'' \<rparr>"
  by (simp_all add: cached_beyond_margin_def manager_with_token_def fresh_manager_def)

theorem getToken_contract_witness:
  "getToken 60000 60200 NetworkFailure manager_with_token = (Inr ''old'', manager_with_token, []) \<and>
   is_failure (fst (getToken 80000 80200 (HttpFailure 401 ''denied'') manager_with_token)) \<and>
   \<not> is_failure (fst (getToken 80000 80200 (TokenResponse ''new'' 300) manager_with_token)) \<and>
   filter is_exchange (snd (snd (getToken 80000 80200 (TokenResponse ''new'' 300) manager_with_token))) \<noteq> [] \<and>
   getToken 80000 80200 (TokenResponse ''new'' 300) manager_with_token =
     (Inr ''new'',
      manager_with_token \<lparr> accessToken := Some ''new'', tokenExpiry := Some 380200 \<rparr>,
      [ExchangeRequest ''client'' ''secret'', NotifyListeners (Some ''new'')]) \<and>
   getToken 80000 80200 (HttpFailure 401 ''denied'') manager_with_token =
     (Inl (AuthenticationFailed 401 ''denied''), manager_with_token,
      [ExchangeRequest ''client'' ''secret''])"
proof -
  have n: "(0::int) \<le> 60000" "(0::int) \<le> 80000" by simp_all
  note A = getToken_contract [OF n(1), of manager_with_token "''old''" 60200 NetworkFailure]
  note B = getToken_contract [OF n(2), of manager_with_token _ 80200 "HttpFailure 401 ''denied''"]
  note C = getToken_contract [OF n(2), of manager_with_token _ 80200 "TokenResponse ''new'' 300"]
  note D = getToken_contract [OF n(2), where tm = manager_with_token and later = 80200
      and cfg = "\<lparr> clientId = ''client'', clientSecret = ''secret'' \<rparr>" and tok = "''new''"
      and expires_in = 300 and status = 401 and errorText = "''denied''"]
  have 1: "getToken 60000 60200 NetworkFailure manager_with_token = (Inr ''old'', manager_with_token, [])"
    using A manager_facts(1) by blast
  have f: "exchange_fails (HttpFailure 401 ''denied'')" "\<not> exchange_fails (TokenResponse ''new'' 300)"
    by simp_all
  have 2: "is_failure (fst (getToken 80000 80200 (HttpFailure 401 ''denied'') manager_with_token))"
    using B manager_facts(2) f(1) by blast
  have 3: "\<not> is_failure (fst (getToken 80000 80200 (TokenResponse ''new'' 300) manager_with_token))"
    using C manager_facts(2,3) f(2) by blast
  have 4: "filter is_exchange (snd (snd (getToken 80000 80200 (TokenResponse ''new'' 300) manager_with_token))) \<noteq> []"
    using C manager_facts(2,3) by blast
  have h: "(\<forall>t'. \<not> cached_beyond_margin 80000 manager_with_token t') \<and>
      refreshPromise manager_with_token = None \<and>
      config manager_with_token = Some \<lparr> clientId = ''client'', clientSecret = ''secret'' \<rparr>"
    using manager_uncached by blast
  have "getToken 80000 80200 (TokenResponse ''new'' 300) manager_with_token =
     (Inr ''new'',
      manager_with_token \<lparr> accessToken := Some ''new'', tokenExpiry := Some (80200 + 300 * 1000) \<rparr>,
      [ExchangeRequest (clientId \<lparr> clientId = ''client'', clientSecret = ''secret'' \<rparr>)
         (clientSecret \<lparr> clientId = ''client'', clientSecret = ''secret'' \<rparr>),
       NotifyListeners (Some ''new'')])"
    using D h by blast
  then have 5: "getToken 80000 80200 (TokenResponse ''new'' 300) manager_with_token =
     (Inr ''new'',
      manager_with_token \<lparr> accessToken := Some ''new'', tokenExpiry := Some 380200 \<rparr>,
      [ExchangeRequest ''client'' ''secret'', NotifyListeners (Some ''new'')])"
    by simp
  have "getToken 80000 80200 (HttpFailure 401 ''denied'') manager_with_token =
     (Inl (AuthenticationFailed 401 ''denied''), manager_with_token,
      [ExchangeRequest (clientId \<lparr> clientId = ''client'', clientSecret = ''secret'' \<rparr>)
         (clientSecret \<lparr> clientId = ''client'', clientSecret = ''secret'' \<rparr>)])"
    using D h by blast
  then have 6: "getToken 80000 80200 (HttpFailure 401 ''denied'') manager_with_token =
     (Inl (AuthenticationFailed 401 ''denied''), manager_with_token,
      [ExchangeRequest ''client'' ''secret''])"
    by simp
  from 1 2 3 4 5 6 show ?thesis by blast
qed

text \<open>
  C9, as stated, fails: a freshly exchanged token with \<open>expires_in = 10\<close> seconds is
  returned to the caller although it expires within 30 seconds of now.
\<close>

theorem short_lived_token_counterexample:
  "getToken 1000 1200 (TokenResponse ''tok'' 10) fresh_manager =
     (Inr ''tok'',
      fresh_manager \<lparr> accessToken := Some ''tok'', tokenExpiry := Some 11200 \<rparr>,
      [ExchangeRequest ''client'' ''secret'', NotifyListeners (Some ''tok'')]) \<and>
   (11200::int) - 1200 \<le> TOKEN_REFRESH_MARGIN"
  by (simp add: getToken_def getToken_call_def valid_cached_token_def refresh_settles_def
        fresh_manager_def TOKEN_REFRESH_MARGIN_def)

text \<open>
  C10. When the refresh fails, the cached token and expiry keep their values and no
  listener is notified; the refresh marker is cleared whenever the refresh settles; and
  after a failed \<open>getToken\<close> the next call without a valid cached token starts a new refresh
  (and sends a new exchange request when a configuration is set) instead of awaiting the
  failed one.
\<close>

theorem failed_exchange_keeps_cache:
  "(is_failure (fst (refresh_settles later response p tm)) \<longrightarrow>
      accessToken (fst (snd (refresh_settles later response p tm))) = accessToken tm \<and>
      tokenExpiry (fst (snd (refresh_settles later response p tm))) = tokenExpiry tm \<and>
      snd (snd (refresh_settles later response p tm)) = []) \<and>
   refreshPromise (fst (snd (refresh_settles later response p tm))) = None \<and>
   (valid_cached_token now tm = None \<longrightarrow>
      refreshPromise (fst (snd (getToken now later response tm))) = None) \<and>
   (valid_cached_token now tm = None \<and> is_failure (fst (getToken now later response tm)) \<longrightarrow>
      accessToken (fst (snd (getToken now later response tm))) = accessToken tm \<and>
      tokenExpiry (fst (snd (getToken now later response tm))) = tokenExpiry tm \<and>
      filter is_notification (snd (snd (getToken now later response tm))) = [] \<and>
      (\<forall>now2. valid_cached_token now2 tm = None \<longrightarrow>
         (\<exists>p'. fst (getToken_call now2 (fst (snd (getToken now later response tm))))
                  = AwaitsNewRefresh p') \<and>
         (config tm \<noteq> None \<longrightarrow>
            filter is_exchange (snd (snd (getToken_call now2 (fst (snd (getToken now later response tm))))))
              \<noteq> [])))"
proof (intro conjI impI allI)
  assume "is_failure (fst (refresh_settles later response p tm))"
  then show "accessToken (fst (snd (refresh_settles later response p tm))) = accessToken tm"
    "tokenExpiry (fst (snd (refresh_settles later response p tm))) = tokenExpiry tm"
    "snd (snd (refresh_settles later response p tm)) = []"
    by (simp_all add: refresh_settles_failure_keeps)
next
  show "refreshPromise (fst (snd (refresh_settles later response p tm))) = None"
    by (rule refresh_settles_clears)
next
  assume "valid_cached_token now tm = None"
  then show "refreshPromise (fst (snd (getToken now later response tm))) = None"
    by (cases response; cases "config tm"; cases "refreshPromise tm")
       (auto simp: getToken_uncached refresh_settles_def split: pending_refresh.splits)
next
  assume a: "valid_cached_token now tm = None \<and> is_failure (fst (getToken now later response tm))"
  then show "accessToken (fst (snd (getToken now later response tm))) = accessToken tm"
    by (cases response; cases "config tm"; cases "refreshPromise tm")
       (auto simp: getToken_uncached refresh_settles_def split: pending_refresh.splits)
  from a show "tokenExpiry (fst (snd (getToken now later response tm))) = tokenExpiry tm"
    by (cases response; cases "config tm"; cases "refreshPromise tm")
       (auto simp: getToken_uncached refresh_settles_def split: pending_refresh.splits)
  from a show "filter is_notification (snd (snd (getToken now later response tm))) = []"
    by (cases response; cases "config tm"; cases "refreshPromise tm")
       (auto simp: getToken_uncached refresh_settles_def split: pending_refresh.splits)
next
  fix now2
  assume a: "valid_cached_token now tm = None \<and> is_failure (fst (getToken now later response tm))"
    and b: "valid_cached_token now2 tm = None"
  let ?tm' = "fst (snd (getToken now later response tm))"
  have k: "accessToken ?tm' = accessToken tm" "tokenExpiry ?tm' = tokenExpiry tm"
      "refreshPromise ?tm' = None" "config ?tm' = config tm"
    using a by (cases response; cases "config tm"; cases "refreshPromise tm";
       auto simp: getToken_uncached refresh_settles_def split: pending_refresh.splits)+
  have "valid_cached_token now2 ?tm' = valid_cached_token now2 tm"
    unfolding valid_cached_token_def by (simp only: k(1) k(2))
  then have v: "valid_cached_token now2 ?tm' = None"
    using b by simp
  show "\<exists>p'. fst (getToken_call now2 ?tm') = AwaitsNewRefresh p'"
    using v k by (cases "config tm") (simp_all add: getToken_call_def)
  show "filter is_exchange (snd (snd (getToken_call now2 ?tm'))) \<noteq> []" if "config tm \<noteq> None"
    using v k that by (cases "config tm") (simp_all add: getToken_call_def)
qed

theorem failed_exchange_keeps_cache_witness:
  "is_failure (fst (getToken 80000 80200 (HttpFailure 401 ''denied'') manager_with_token)) \<and>
   accessToken (fst (snd (getToken 80000 80200 (HttpFailure 401 ''denied'') manager_with_token)))
     = Some ''old'' \<and>
   tokenExpiry (fst (snd (getToken 80000 80200 (HttpFailure 401 ''denied'') manager_with_token)))
     = Some 100000 \<and>
   refreshPromise (fst (snd (getToken 80000 80200 (HttpFailure 401 ''denied'') manager_with_token)))
     = None \<and>
   filter is_notification (snd (snd (getToken 80000 80200 (HttpFailure 401 ''denied'') manager_with_token)))
     = [] \<and>
   (\<exists>p'. fst (getToken_call 80300
       (fst (snd (getToken 80000 80200 (HttpFailure 401 ''denied'') manager_with_token))))
         = AwaitsNewRefresh p')"
proof -
  note F = failed_exchange_keeps_cache [of 80200 "HttpFailure 401 ''denied''" AwaitingResponse
      manager_with_token 80000]
  have v: "valid_cached_token 80000 manager_with_token = None"
      "valid_cached_token 80300 manager_with_token = None"
    by (simp_all add: valid_cached_token_def manager_with_token_def fresh_manager_def
          TOKEN_REFRESH_MARGIN_def truthy_str_def)
  have f: "is_failure (fst (getToken 80000 80200 (HttpFailure 401 ''denied'') manager_with_token))"
    by code_simp
  have o: "accessToken manager_with_token = Some ''old''" "tokenExpiry manager_with_token = Some 100000"
    by (simp_all add: manager_with_token_def)
  from F v f have
    "accessToken (fst (snd (getToken 80000 80200 (HttpFailure 401 ''denied'') manager_with_token)))
       = accessToken manager_with_token"
    "tokenExpiry (fst (snd (getToken 80000 80200 (HttpFailure 401 ''denied'') manager_with_token)))
       = tokenExpiry manager_with_token"
    "refreshPromise (fst (snd (getToken 80000 80200 (HttpFailure 401 ''denied'') manager_with_token)))
       = None"
    "filter is_notification (snd (snd (getToken 80000 80200 (HttpFailure 401 ''denied'') manager_with_token)))
       = []"
    "\<exists>p'. fst (getToken_call 80300
       (fst (snd (getToken 80000 80200 (HttpFailure 401 ''denied'') manager_with_token))))
         = AwaitsNewRefresh p'"
    by blast+
  with f o show ?thesis by simp
qed


section \<open>Properties of the resubscription\<close>
























section \<open>Properties of the envelope codec\<close>

lemma b64_all:
  "\<forall>n \<in> set [0 ..< 64]. b64_value (b64_char n) = Some n \<and> \<not> is_ascii_whitespace (b64_char n)
      \<and> b64_char n \<noteq> pad_char"
  by code_simp

lemma b64_char_props:
  assumes "n < 64"
  shows "b64_value (b64_char n) = Some n" "\<not> is_ascii_whitespace (b64_char n)" "b64_char n \<noteq> pad_char"
  using b64_all assms by auto

lemma pad_not_space: "\<not> is_ascii_whitespace pad_char"
  by (simp add: is_ascii_whitespace_def pad_char_def)

lemma sextets_bound:
  "\<forall>x \<in> set xs. x < 256 \<Longrightarrow> \<forall>s \<in> set (bytes_to_sextets xs). s < 64"
  by (induction xs rule: bytes_to_sextets.induct) (auto simp: less_mult_imp_div_less)

lemma small_div: "(y::nat) < 256 \<Longrightarrow> y div 16 < 16" "(z::nat) < 256 \<Longrightarrow> z div 64 < 4"
  by simp_all

lemma sextets_to_bytes_inverse:
  "\<forall>x \<in> set xs. x < 256 \<Longrightarrow> sextets_to_bytes (bytes_to_sextets xs) = xs"
  by (induction xs rule: bytes_to_sextets.induct) (simp_all add: small_div)

lemma length_sextets:
  "length (bytes_to_sextets xs) =
     4 * (length xs div 3) + (if length xs mod 3 = 0 then 0 else length xs mod 3 + 1)"
  by (induction xs rule: bytes_to_sextets.induct) auto

lemma last_sextets:
  "xs \<noteq> [] \<Longrightarrow> bytes_to_sextets xs \<noteq> []"
  by (induction xs rule: bytes_to_sextets.induct) auto

lemma strip_padding_replicate:
  assumes "k \<le> 2" "xs = [] \<or> last xs \<noteq> pad_char"
  shows "strip_padding (xs @ replicate k pad_char) = xs"
proof -
  consider "k = 0" | "k = 1" | "k = 2" using assms(1) by linarith
  then show ?thesis
  proof cases
    case 1
    with assms(2) show ?thesis by (auto simp: strip_padding_def)
  next
    case 2
    with assms(2) show ?thesis by (auto simp: strip_padding_def butlast_append)
  next
    case 3
    then have r: "replicate k pad_char = [pad_char, pad_char]" by (simp add: numeral_2_eq_2)
    have b: "butlast (xs @ [pad_char, pad_char]) = xs @ [pad_char]"
      by (simp add: butlast_append)
    show ?thesis unfolding r strip_padding_def Let_def b
      using assms(2) by (auto simp: butlast_append)
  qed
qed

lemma those_b64:
  "\<forall>s \<in> set sx. s < 64 \<Longrightarrow> those (map b64_value (map b64_char sx)) = Some sx"
  by (induction sx) (simp_all add: b64_char_props)


lemma of_nat_unat_byte: "(of_nat (unat (b :: byte)) :: code_unit) = ucast b"
  by transfer simp

lemma ucast_round: "(ucast (ucast (b :: byte) :: code_unit) :: byte) = b"
  by (simp add: ucast_down_ucast_id is_down)

lemma header_prefix:
  "startsWith (base64_encode (gzip_header @ rest)) (js_of ''H4sI'')"
  by (simp add: startsWith_def base64_encode_def gzip_header_def js_of_def b64_char_def)

lemma atob_base64_encode: "atob (base64_encode bs) = Some (map ucast bs)"
proof -
  define xs where "xs = map unat bs"
  define sx where "sx = bytes_to_sextets xs"
  define k where "k = (3 - length bs mod 3) mod 3"
  define body where "body = map b64_char sx"
  have enc: "base64_encode bs = body @ replicate k pad_char"
    by (simp add: base64_encode_def body_def sx_def xs_def k_def)
  have "\<And>b :: byte. unat b < 256"
  proof -
    fix b :: byte
    have "unat b < 2 ^ LENGTH(8)" by (rule unsigned_less)
    then show "unat b < 256" by simp
  qed
  then have small: "\<forall>x \<in> set xs. x < 256"
    by (auto simp: xs_def)
  then have six: "\<forall>s \<in> set sx. s < 64"
    unfolding sx_def by (rule sextets_bound)
  have len: "length sx = 4 * (length bs div 3) + (if length bs mod 3 = 0 then 0 else length bs mod 3 + 1)"
    by (simp add: sx_def xs_def length_sextets)
  have m3: "length bs mod 3 = 0 \<or> length bs mod 3 = 1 \<or> length bs mod 3 = 2"
    by linarith
  have k2: "k \<le> 2" unfolding k_def by simp
  have f1: "filter (\<lambda>c. \<not> is_ascii_whitespace c) (body @ replicate k pad_char) = body @ replicate k pad_char"
    using six by (auto simp: body_def b64_char_props pad_not_space intro!: filter_True)
  have f2: "length (body @ replicate k pad_char) mod 4 = 0"
    using m3 by (auto simp: body_def len k_def)
  have "body = [] \<or> last body \<noteq> pad_char"
  proof (cases "sx = []")
    case True
    then show ?thesis by (simp add: body_def)
  next
    case False
    then have "last sx \<in> set sx" by simp
    then have "last sx < 64" using six by blast
    then show ?thesis using False by (simp add: body_def last_map b64_char_props)
  qed
  then have f3: "strip_padding (body @ replicate k pad_char) = body"
    using k2 by (simp add: strip_padding_replicate)
  have f4: "length body mod 4 \<noteq> 1"
    using m3 by (auto simp: body_def len)
  have f5: "those (map b64_value body) = Some sx"
    unfolding body_def using six by (rule those_b64)
  have f6: "sextets_to_bytes sx = xs"
    unfolding sx_def using small by (rule sextets_to_bytes_inverse)
  have f7: "map of_nat xs = (map ucast bs :: jsstring)"
    by (simp add: xs_def of_nat_unat_byte)
  show ?thesis
    unfolding enc atob_def Let_def f1 f2 using f3 f4 f5 f6 f7 by simp
qed

lemma not_prefixed:
  "\<not> startsWith message (js_of ''H4sI'') \<Longrightarrow>
     decompressMessage inflate parse message =
       (case JSON_parse parse message of
          None \<Rightarrow> (Inl SyntaxError, [JsonParse])
        | Some v \<Rightarrow> (Inr v, [JsonParse]))"
  by (simp add: decompressMessage_def)

text \<open>
  C8, amended. Let the compressor produce the gzip format (its output begins with the
  gzip header \<open>1f 8b 08\<close>), let \<open>inflate\<close> invert it on serialized JSON, and let \<open>JSON.parse\<close>
  invert the serializer. Then for every JSON value, serializing, compressing, base64
  encoding and decoding through \<open>decompressMessage\<close> reproduces the value, by base64
  decoding, inflating and parsing. Every message that does not start with \<open>H4sI\<close> is parsed
  as JSON directly, with no base64 decoding and no decompression; and no JSON text starts
  with \<open>H4sI\<close>.
\<close>

theorem envelope_round_trip:
  assumes "\<And>bs. take 3 (gzip bs) = gzip_header"
    and "\<And>v. inflate (gzip (utf8 (json_stringify v))) = Some (json_stringify v)"
    and "\<And>v. JSON_parse parse (json_stringify v) = Some v"
  shows
   "decompressMessage inflate parse (base64_encode (gzip (utf8 (json_stringify v))))
      = (Inr v, [Base64Decode, Inflate, JsonParse]) \<and>
    (\<not> startsWith message (js_of ''H4sI'') \<longrightarrow>
       decompressMessage inflate parse message =
         (case JSON_parse parse message of
            None \<Rightarrow> (Inl SyntaxError, [JsonParse])
          | Some w \<Rightarrow> (Inr w, [JsonParse]))) \<and>
    (starts_json_value message \<longrightarrow> \<not> startsWith message (js_of ''H4sI''))"
proof (intro conjI impI)
  let ?bytes = "gzip (utf8 (json_stringify v))"
  have "?bytes = take 3 ?bytes @ drop 3 ?bytes" by simp
  then have h: "?bytes = gzip_header @ drop 3 ?bytes" by (simp only: assms(1))
  have p: "startsWith (base64_encode ?bytes) (js_of ''H4sI'')"
    by (subst h) (rule header_prefix)
  have b: "map ucast (map ucast ?bytes :: jsstring) = ?bytes"
    by (simp add: ucast_round comp_def)
  show "decompressMessage inflate parse (base64_encode ?bytes)
      = (Inr v, [Base64Decode, Inflate, JsonParse])"
    unfolding decompressMessage_def
    by (simp only: p atob_base64_encode b assms(2) assms(3) Let_def if_True option.case)
next
  assume "\<not> startsWith message (js_of ''H4sI'')"
  then show "decompressMessage inflate parse message =
         (case JSON_parse parse message of
            None \<Rightarrow> (Inl SyntaxError, [JsonParse])
          | Some w \<Rightarrow> (Inr w, [JsonParse]))"
    by (rule not_prefixed)
next
  assume "starts_json_value message"
  then show "\<not> startsWith message (js_of ''H4sI'')"
    by (cases message) (auto simp: starts_json_value_def startsWith_def js_of_def is_json_whitespace_def)
qed


lemma stand_in_facts:
  "take 3 (stored_gzip bs) = gzip_header"
  "stored_inflate (stored_gzip (ascii_utf8 (stringify_bool v))) = Some (stringify_bool v)"
  "JSON_parse parse_bool (stringify_bool v) = Some v"
proof -
  show "take 3 (stored_gzip bs) = gzip_header"
    by (simp add: stored_gzip_def gzip_header_def)
  have "map ucast (map ucast (stringify_bool v) :: byte list) = stringify_bool v"
    by (cases v) (simp_all add: stringify_bool_def js_of_def)
  then show "stored_inflate (stored_gzip (ascii_utf8 (stringify_bool v))) = Some (stringify_bool v)"
    by (simp add: stored_inflate_def stored_gzip_def ascii_utf8_def gzip_header_def)
  show "JSON_parse parse_bool (stringify_bool v) = Some v"
    by (cases v)
       (simp_all add: JSON_parse_def parse_bool_def stringify_bool_def starts_json_value_def
          js_of_def is_json_whitespace_def)
qed

lemma stand_in_messages:
  "base64_encode (stored_gzip (ascii_utf8 (stringify_bool True))) = js_of ''H4sIdHJ1ZQ==''"
  "\<not> startsWith (js_of ''false'') (js_of ''H4sI'')"
  "JSON_parse parse_bool (js_of ''false'') = Some False"
  by code_simp+

theorem envelope_round_trip_witness:
  "decompressMessage stored_inflate parse_bool (js_of ''H4sIdHJ1ZQ=='')
     = (Inr True, [Base64Decode, Inflate, JsonParse]) \<and>
   decompressMessage stored_inflate parse_bool (js_of ''false'') = (Inr False, [JsonParse])"
proof -
  note R = envelope_round_trip [of stored_gzip stored_inflate ascii_utf8 stringify_bool parse_bool
      True "js_of ''false''", OF stand_in_facts]
  have 1: "decompressMessage stored_inflate parse_bool (js_of ''H4sIdHJ1ZQ=='')
     = (Inr True, [Base64Decode, Inflate, JsonParse])"
    using R by (simp only: stand_in_messages(1))
  have "decompressMessage stored_inflate parse_bool (js_of ''false'') =
         (case JSON_parse parse_bool (js_of ''false'') of
            None \<Rightarrow> (Inl SyntaxError, [JsonParse])
          | Some w \<Rightarrow> (Inr w, [JsonParse]))"
    using R stand_in_messages(2) by blast
  then have 2: "decompressMessage stored_inflate parse_bool (js_of ''false'') = (Inr False, [JsonParse])"
    by (simp only: stand_in_messages(3) option.case)
  from 1 2 show ?thesis by blast
qed

lemma zlib_envelope_text:
  "base64_encode zlib_empty_object = js_of ''eJyrrgUAAXUA+Q==''"
  "\<not> startsWith (js_of ''eJyrrgUAAXUA+Q=='') (js_of ''H4sI'')"
  "\<not> starts_json_value (js_of ''eJyrrgUAAXUA+Q=='')"
  by code_simp+

lemma zlib_envelope_not_decoded:
  "decompressMessage inflate parse (base64_encode zlib_empty_object) = (Inl SyntaxError, [JsonParse])"
  by (simp add: zlib_envelope_text not_prefixed JSON_parse_def)

text \<open>
  C8, as stated, fails for a member of the deflate family other than gzip: the zlib stream
  of the JSON text \<open>{}\<close> has the base64 text \<open>eJyrrgUAAXUA+Q==\<close>, which does not start with
  \<open>H4sI\<close>; \<open>decompressMessage\<close> neither decodes nor inflates it, hands it to \<open>JSON.parse\<close>
  as it is, and throws a syntax error, whatever the libraries are.
\<close>

theorem zlib_envelope_counterexample:
  "base64_encode zlib_empty_object = js_of ''eJyrrgUAAXUA+Q=='' \<and>
   decompressMessage stored_inflate parse_bool (base64_encode zlib_empty_object)
     = (Inl SyntaxError, [JsonParse])"
  using zlib_envelope_text(1) zlib_envelope_not_decoded by blast

end
